theory Spec2Isabelle
  imports Complex_Main "HOL-Library.Char_ord" "HOL-Library.List_Lexorder" "HOL-Library.Sublist"
begin

section \<open>Numbers and errors\<close>

text \<open>
  The calculators compute with Python floats, that is, IEEE 754 doubles: every
  arithmetic operation returns the exact result rounded to the nearest double. The
  embedding writes that rounding out. A float is the real number it denotes, and every
  function takes the rounding \<open>rnd\<close> as its first argument and applies it to the exact
  result of each operation of the source, in the source's order of evaluation. A decimal
  literal of the source denotes \<open>rnd\<close> of its decimal value, an integer that meets a
  float is converted by \<open>rnd\<close>.

  Two roundings are used. \<open>binary64\<close> is the rounding of the program: to the nearest
  number with a 53-bit significand, ties to the even significand. \<open>exact\<close> rounds
  nothing: it is the arithmetic of the specification ("abstract decimal, no rounding until
  presentation", "total functions over real-number inputs"). A statement that holds
  for every \<open>rnd\<close> holds for both.

  The exponent of \<open>binary64\<close> is unbounded: overflow to infinity, subnormal numbers
  and NaN are outside the model. The one non-finite value the source writes itself,
  \<open>float('inf')\<close>, is a constructor of its own. Where a field annotated \<open>float\<close>
  holds a Python \<open>int\<close> (the integer defaults), Python computes with integers
  exactly; \<open>binary64\<close> gives the same values as long as they stay below \<open>2^53\<close>.

  Python raises \<open>ZeroDivisionError\<close> on a division by zero, also of floats.
\<close>

datatype py_error = ZeroDivisionError

datatype py_float = Finite real | Infinity

type_synonym rounding = "real \<Rightarrow> real"

definition exact :: rounding where
  "exact x = x"

definition round_half_even :: "real \<Rightarrow> int" where
  "round_half_even q =
     (let f = \<lfloor>q\<rfloor>
      in if q - of_int f < 1 / 2 then f
         else if 1 / 2 < q - of_int f then f + 1
         else if even f then f else f + 1)"

text \<open>
  A positive number is scaled by powers of two into the interval from \<open>2^52\<close> to
  \<open>2^53\<close>, where the doubles are the integers, rounded there and scaled back.
\<close>

function round_pos :: "real \<Rightarrow> real" where
  "round_pos x =
     (if x \<le> 0 then 0
      else if 9007199254740992 \<le> x then round_pos (x / 2) * 2
      else if x < 4503599627370496 then round_pos (x * 2) / 2
      else of_int (round_half_even x))"
  by pat_completeness auto
termination
proof (relation "measure (\<lambda>x. nat \<bar>\<lfloor>log 2 x\<rfloor> - 52\<bar>)")
  show "wf (measure (\<lambda>x. nat \<bar>\<lfloor>log 2 x\<rfloor> - 52\<bar>))"
    by simp
next
  fix x :: real
  assume a: "\<not> x \<le> 0" "9007199254740992 \<le> x"
  then have "log 2 (x / 2) = log 2 x - 1"
    by (simp add: log_divide)
  moreover from a have "2 powr 53 \<le> x"
    by simp
  then have "53 \<le> log 2 x"
    using a by (simp add: le_log_iff)
  ultimately show "(x / 2, x) \<in> measure (\<lambda>x. nat \<bar>\<lfloor>log 2 x\<rfloor> - 52\<bar>)"
    by (simp; linarith?)
next
  fix x :: real
  assume a: "\<not> x \<le> 0" "\<not> 9007199254740992 \<le> x" "x < 4503599627370496"
  then have "log 2 (x * 2) = log 2 x + 1"
    by (simp add: log_mult)
  moreover from a have "x < 2 powr 52"
    by simp
  then have "log 2 x < 52"
    using a by (simp add: log_less_iff)
  ultimately show "(x * 2, x) \<in> measure (\<lambda>x. nat \<bar>\<lfloor>log 2 x\<rfloor> - 52\<bar>)"
    by (simp; linarith?)
qed

declare round_pos.simps [simp del]

definition binary64 :: rounding where
  "binary64 x = (if x < 0 then - round_pos (- x) else round_pos x)"

definition py_div :: "rounding \<Rightarrow> real \<Rightarrow> real \<Rightarrow> py_error + real" where
  "py_div rnd a b = (if b = 0 then Inl ZeroDivisionError else Inr (rnd (a / b)))"

section \<open>calculator.py: the basic calculator\<close>

record SuperchargerProfitabilityCalculator =
  num_stalls :: int
  equipment_cost_per_stall :: real
  installation_cost :: real
  permitting_fees :: real
  land_lease_annual :: real
  electricity_rate_kwh :: real
  maintenance_annual :: real
  charging_price_kwh :: real
  avg_kwh_per_session :: real
  sessions_per_stall_per_day :: real
  utilization_rate :: real

definition SuperchargerProfitabilityCalculator_default ::
  "rounding \<Rightarrow> SuperchargerProfitabilityCalculator" where
  "SuperchargerProfitabilityCalculator_default rnd =
     \<lparr> num_stalls = 8, equipment_cost_per_stall = 35000, installation_cost = 100000,
       permitting_fees = 25000, land_lease_annual = 24000, electricity_rate_kwh = rnd 0.15,
       maintenance_annual = 15000, charging_price_kwh = rnd 0.35, avg_kwh_per_session = 50,
       sessions_per_stall_per_day = 5, utilization_rate = rnd 0.70 \<rparr>"

definition calculate_initial_investment ::
  "rounding \<Rightarrow> SuperchargerProfitabilityCalculator \<Rightarrow> real" where
  "calculate_initial_investment rnd c =
     (let equipment_total = rnd (rnd (of_int (num_stalls c)) * equipment_cost_per_stall c)
      in rnd (rnd (equipment_total + installation_cost c) + permitting_fees c))"

definition calculate_annual_revenue ::
  "rounding \<Rightarrow> SuperchargerProfitabilityCalculator \<Rightarrow> real" where
  "calculate_annual_revenue rnd c =
     (let sessions_per_year =
            rnd (rnd (rnd (rnd (of_int (num_stalls c)) * sessions_per_stall_per_day c) * 365)
                 * utilization_rate c);
          kwh_per_year = rnd (sessions_per_year * avg_kwh_per_session c)
      in rnd (kwh_per_year * charging_price_kwh c))"

definition calculate_annual_electricity_cost ::
  "rounding \<Rightarrow> SuperchargerProfitabilityCalculator \<Rightarrow> real" where
  "calculate_annual_electricity_cost rnd c =
     (let sessions_per_year =
            rnd (rnd (rnd (rnd (of_int (num_stalls c)) * sessions_per_stall_per_day c) * 365)
                 * utilization_rate c);
          kwh_per_year = rnd (sessions_per_year * avg_kwh_per_session c)
      in rnd (kwh_per_year * electricity_rate_kwh c))"

definition calculate_annual_operating_costs ::
  "rounding \<Rightarrow> SuperchargerProfitabilityCalculator \<Rightarrow> real" where
  "calculate_annual_operating_costs rnd c =
     (let electricity_cost = calculate_annual_electricity_cost rnd c
      in rnd (rnd (electricity_cost + land_lease_annual c) + maintenance_annual c))"

definition calculate_annual_profit_basic ::
  "rounding \<Rightarrow> SuperchargerProfitabilityCalculator \<Rightarrow> real" where
  "calculate_annual_profit_basic rnd c =
     (let revenue = calculate_annual_revenue rnd c;
          costs = calculate_annual_operating_costs rnd c
      in rnd (revenue - costs))"

definition calculate_roi :: "rounding \<Rightarrow> SuperchargerProfitabilityCalculator \<Rightarrow> real" where
  "calculate_roi rnd c =
     (let initial_investment = calculate_initial_investment rnd c;
          annual_profit = calculate_annual_profit_basic rnd c
      in if initial_investment = 0 then 0
         else rnd (rnd (annual_profit / initial_investment) * 100))"

definition calculate_payback_period ::
  "rounding \<Rightarrow> SuperchargerProfitabilityCalculator \<Rightarrow> py_float" where
  "calculate_payback_period rnd c =
     (let initial_investment = calculate_initial_investment rnd c;
          annual_profit = calculate_annual_profit_basic rnd c
      in if annual_profit \<le> 0 then Infinity
         else Finite (rnd (initial_investment / annual_profit)))"

definition calculate_5year_profit ::
  "rounding \<Rightarrow> SuperchargerProfitabilityCalculator \<Rightarrow> real" where
  "calculate_5year_profit rnd c =
     (let annual_profit = calculate_annual_profit_basic rnd c;
          initial_investment = calculate_initial_investment rnd c
      in rnd (rnd (annual_profit * 5) - initial_investment))"

section \<open>calculator\_enhanced.py: cost groups\<close>

record InstallationCosts =
  site_preparation :: real
  electrical_infrastructure :: real
  concrete_construction :: real
  labor_costs :: real
  permitting_inspections :: real
  environmental_compliance :: real
  contingency :: real

definition InstallationCosts_default :: InstallationCosts where
  "InstallationCosts_default =
     \<lparr> site_preparation = 50000, electrical_infrastructure = 150000,
       concrete_construction = 40000, labor_costs = 80000, permitting_inspections = 25000,
       environmental_compliance = 15000, contingency = 25000 \<rparr>"

definition InstallationCosts_total :: "rounding \<Rightarrow> InstallationCosts \<Rightarrow> real" where
  "InstallationCosts_total rnd i =
     rnd (rnd (rnd (rnd (rnd (rnd (site_preparation i + electrical_infrastructure i)
       + concrete_construction i) + labor_costs i) + permitting_inspections i)
       + environmental_compliance i) + contingency i)"

record EquipmentCosts =
  num_stalls :: int
  charger_unit_cost :: real
  transformer_cost :: real
  switchgear_cost :: real
  cabling_materials :: real
  canopy_shelter :: real
  signage_lighting :: real
  payment_systems :: real
  monitoring_systems :: real

definition EquipmentCosts_default :: EquipmentCosts where
  "EquipmentCosts_default =
     \<lparr> num_stalls = 8, charger_unit_cost = 30000, transformer_cost = 45000,
       switchgear_cost = 35000, cabling_materials = 25000, canopy_shelter = 80000,
       signage_lighting = 15000, payment_systems = 12000, monitoring_systems = 18000 \<rparr>"

definition EquipmentCosts_total :: "rounding \<Rightarrow> EquipmentCosts \<Rightarrow> real" where
  "EquipmentCosts_total rnd e =
     rnd (rnd (rnd (rnd (rnd (rnd (rnd
       (rnd (charger_unit_cost e * rnd (of_int (EquipmentCosts.num_stalls e)))
        + transformer_cost e) + switchgear_cost e) + cabling_materials e) + canopy_shelter e)
        + signage_lighting e) + payment_systems e) + monitoring_systems e)"

record LicensingLegalCosts =
  business_licenses :: real
  environmental_permits :: real
  legal_fees :: real
  insurance_setup :: real
  trademark_branding :: real

definition LicensingLegalCosts_default :: LicensingLegalCosts where
  "LicensingLegalCosts_default =
     \<lparr> business_licenses = 5000, environmental_permits = 8000, legal_fees = 12000,
       insurance_setup = 3000, trademark_branding = 5000 \<rparr>"

definition LicensingLegalCosts_total :: "rounding \<Rightarrow> LicensingLegalCosts \<Rightarrow> real" where
  "LicensingLegalCosts_total rnd l =
     rnd (rnd (rnd (rnd (business_licenses l + environmental_permits l) + legal_fees l)
       + insurance_setup l) + trademark_branding l)"

record AnnualOperatingCosts =
  land_lease_rent :: real
  property_taxes :: real
  business_taxes :: real
  insurance_annual :: real
  maintenance_contract :: real
  cleaning_upkeep :: real
  security_monitoring :: real
  network_connectivity :: real
  software_management_fees :: real
  utilities_non_charging :: real
  repairs_reserve :: real

definition AnnualOperatingCosts_default :: AnnualOperatingCosts where
  "AnnualOperatingCosts_default =
     \<lparr> land_lease_rent = 36000, property_taxes = 12000, business_taxes = 8000,
       insurance_annual = 15000, maintenance_contract = 20000, cleaning_upkeep = 8000,
       security_monitoring = 6000, network_connectivity = 3600,
       software_management_fees = 12000, utilities_non_charging = 4000,
       repairs_reserve = 10000 \<rparr>"

definition total_fixed :: "rounding \<Rightarrow> AnnualOperatingCosts \<Rightarrow> real" where
  "total_fixed rnd oc =
     rnd (rnd (rnd (rnd (rnd (rnd (rnd (rnd (rnd (rnd
       (land_lease_rent oc + property_taxes oc) + business_taxes oc) + insurance_annual oc)
        + maintenance_contract oc) + cleaning_upkeep oc) + security_monitoring oc)
        + network_connectivity oc) + software_management_fees oc)
        + utilities_non_charging oc) + repairs_reserve oc)"

record RevenueParameters =
  num_stalls :: int
  peak_price :: real
  standard_price :: real
  off_peak_price :: real
  peak_usage_percent :: real
  standard_usage_percent :: real
  off_peak_usage_percent :: real
  avg_kwh_per_session :: real
  sessions_per_stall_per_day :: real
  utilization_rate :: real
  idle_fee_per_minute :: real
  avg_idle_minutes_per_session :: real
  idle_fee_occurrence_rate :: real
  membership_monthly_fee :: real
  percent_members :: real
  member_discount_per_kwh :: real
  summer_multiplier :: real
  winter_multiplier :: real
  spring_fall_multiplier :: real
  electricity_rate_peak :: real
  electricity_rate_standard :: real
  electricity_rate_off_peak :: real
  weekday_multiplier :: real
  weekend_multiplier :: real

definition RevenueParameters_default :: "rounding \<Rightarrow> RevenueParameters" where
  "RevenueParameters_default rnd =
     \<lparr> num_stalls = 8, peak_price = rnd 0.42, standard_price = rnd 0.35,
       off_peak_price = rnd 0.28,
       peak_usage_percent = rnd 0.25, standard_usage_percent = rnd 0.60,
       off_peak_usage_percent = rnd 0.15, avg_kwh_per_session = 50,
       sessions_per_stall_per_day = 6, utilization_rate = rnd 0.70,
       idle_fee_per_minute = rnd 0.50, avg_idle_minutes_per_session = 5,
       idle_fee_occurrence_rate = rnd 0.30, membership_monthly_fee = rnd 9.99,
       percent_members = rnd 0.15, member_discount_per_kwh = rnd 0.05,
       summer_multiplier = rnd 1.15, winter_multiplier = rnd 0.95,
       spring_fall_multiplier = rnd 1.00,
       electricity_rate_peak = rnd 0.18, electricity_rate_standard = rnd 0.14,
       electricity_rate_off_peak = rnd 0.10, weekday_multiplier = rnd 1.05,
       weekend_multiplier = rnd 0.95 \<rparr>"

section \<open>calculator\_enhanced.py: the enhanced calculator\<close>

record EnhancedSuperchargerCalculator =
  installation :: InstallationCosts
  equipment :: EquipmentCosts
  licensing :: LicensingLegalCosts
  operating :: AnnualOperatingCosts
  revenue :: RevenueParameters

text \<open>
  The constructor: an argument left out (\<open>None\<close>) is replaced by the group's defaults.
\<close>

definition EnhancedSuperchargerCalculator_init ::
  "rounding \<Rightarrow> InstallationCosts option \<Rightarrow> EquipmentCosts option \<Rightarrow>
   LicensingLegalCosts option \<Rightarrow> AnnualOperatingCosts option \<Rightarrow> RevenueParameters option \<Rightarrow>
   EnhancedSuperchargerCalculator"
where
  "EnhancedSuperchargerCalculator_init rnd i e l oc r =
     \<lparr> installation = (case i of None \<Rightarrow> InstallationCosts_default | Some x \<Rightarrow> x),
       equipment = (case e of None \<Rightarrow> EquipmentCosts_default | Some x \<Rightarrow> x),
       licensing = (case l of None \<Rightarrow> LicensingLegalCosts_default | Some x \<Rightarrow> x),
       operating = (case oc of None \<Rightarrow> AnnualOperatingCosts_default | Some x \<Rightarrow> x),
       revenue = (case r of None \<Rightarrow> RevenueParameters_default rnd | Some x \<Rightarrow> x) \<rparr>"

record InitialInvestment =
  inv_installation :: real
  inv_equipment :: real
  inv_licensing_legal :: real
  inv_total :: real

definition calculate_total_initial_investment ::
  "rounding \<Rightarrow> EnhancedSuperchargerCalculator \<Rightarrow> InitialInvestment" where
  "calculate_total_initial_investment rnd self =
     \<lparr> inv_installation = InstallationCosts_total rnd (installation self),
       inv_equipment = EquipmentCosts_total rnd (equipment self),
       inv_licensing_legal = LicensingLegalCosts_total rnd (licensing self),
       inv_total = rnd (rnd (InstallationCosts_total rnd (installation self) +
                             EquipmentCosts_total rnd (equipment self)) +
                        LicensingLegalCosts_total rnd (licensing self)) \<rparr>"

record AnnualSessions =
  weekday_sessions :: real
  weekend_sessions :: real
  total_sessions :: real
  peak_sessions :: real
  standard_sessions :: real
  off_peak_sessions :: real

definition baseline_sessions :: "rounding \<Rightarrow> RevenueParameters \<Rightarrow> real" where
  \<comment> \<open>the local \<open>total_sessions\<close> of \<open>calculate_annual_sessions\<close>\<close>
  "baseline_sessions rnd r =
     rnd (rnd (rnd (rnd (of_int (num_stalls r)) * sessions_per_stall_per_day r) * 365)
          * utilization_rate r)"

definition calculate_annual_sessions ::
  "rounding \<Rightarrow> EnhancedSuperchargerCalculator \<Rightarrow> AnnualSessions" where
  "calculate_annual_sessions rnd self =
     (let r = revenue self;
          total = baseline_sessions rnd r;
          weekday = rnd (rnd (total * rnd (5 / 7)) * weekday_multiplier r);
          weekend = rnd (rnd (total * rnd (2 / 7)) * weekend_multiplier r);
          adjusted_total = rnd (weekday + weekend)
      in \<lparr> weekday_sessions = weekday,
           weekend_sessions = weekend,
           total_sessions = adjusted_total,
           peak_sessions = rnd (adjusted_total * peak_usage_percent r),
           standard_sessions = rnd (adjusted_total * standard_usage_percent r),
           off_peak_sessions = rnd (adjusted_total * off_peak_usage_percent r) \<rparr>)"

record ChargingRevenue =
  peak_revenue :: real
  standard_revenue :: real
  off_peak_revenue :: real
  total_charging_revenue :: real
  peak_kwh :: real
  standard_kwh :: real
  off_peak_kwh :: real
  total_kwh :: real

definition member_adjustment :: "rounding \<Rightarrow> RevenueParameters \<Rightarrow> py_error + real" where
  \<comment> \<open>the local \<open>member_adjustment\<close> of \<open>calculate_charging_revenue\<close>\<close>
  "member_adjustment rnd r =
     (case py_div rnd (member_discount_per_kwh r) (standard_price r) of
        Inl e \<Rightarrow> Inl e
      | Inr q \<Rightarrow> Inr (rnd (1 - rnd (percent_members r * q))))"

definition seasonal_avg :: "rounding \<Rightarrow> RevenueParameters \<Rightarrow> real" where
  \<comment> \<open>the local \<open>seasonal_avg\<close> of \<open>calculate_charging_revenue\<close>\<close>
  "seasonal_avg rnd r =
     rnd (rnd (rnd (summer_multiplier r * rnd 0.25) + rnd (winter_multiplier r * rnd 0.25))
          + rnd (spring_fall_multiplier r * rnd 0.50))"

definition calculate_charging_revenue ::
  "rounding \<Rightarrow> EnhancedSuperchargerCalculator \<Rightarrow> py_error + ChargingRevenue" where
  "calculate_charging_revenue rnd self =
     (let r = revenue self;
          sessions = calculate_annual_sessions rnd self;
          pk_kwh = rnd (peak_sessions sessions * avg_kwh_per_session r);
          st_kwh = rnd (standard_sessions sessions * avg_kwh_per_session r);
          op_kwh = rnd (off_peak_sessions sessions * avg_kwh_per_session r)
      in case member_adjustment rnd r of
           Inl e \<Rightarrow> Inl e
         | Inr adj \<Rightarrow>
             (let pk_revenue = rnd (rnd (pk_kwh * peak_price r) * adj);
                  st_revenue = rnd (rnd (st_kwh * standard_price r) * adj);
                  op_revenue = rnd (rnd (op_kwh * off_peak_price r) * adj)
              in Inr \<lparr> peak_revenue = rnd (pk_revenue * seasonal_avg rnd r),
                       standard_revenue = rnd (st_revenue * seasonal_avg rnd r),
                       off_peak_revenue = rnd (op_revenue * seasonal_avg rnd r),
                       total_charging_revenue =
                         rnd (rnd (rnd (pk_revenue + st_revenue) + op_revenue)
                              * seasonal_avg rnd r),
                       peak_kwh = pk_kwh,
                       standard_kwh = st_kwh,
                       off_peak_kwh = op_kwh,
                       total_kwh = rnd (rnd (pk_kwh + st_kwh) + op_kwh) \<rparr>))"

record AdditionalRevenue =
  idle_fee_revenue :: real
  membership_revenue :: real
  total_additional_revenue :: real

definition calculate_additional_revenue ::
  "rounding \<Rightarrow> EnhancedSuperchargerCalculator \<Rightarrow> AdditionalRevenue" where
  "calculate_additional_revenue rnd self =
     (let r = revenue self;
          sessions = calculate_annual_sessions rnd self;
          idle_sessions = rnd (total_sessions sessions * idle_fee_occurrence_rate r);
          idle_revenue = rnd (rnd (idle_sessions * avg_idle_minutes_per_session r)
                              * idle_fee_per_minute r);
          avg_sessions_per_customer_monthly = 4;
          unique_customers = rnd (rnd (total_sessions sessions / 12)
                                  / avg_sessions_per_customer_monthly);
          members = rnd (unique_customers * percent_members r);
          membership = rnd (rnd (members * membership_monthly_fee r) * 12)
      in \<lparr> idle_fee_revenue = idle_revenue,
           membership_revenue = membership,
           total_additional_revenue = rnd (idle_revenue + membership) \<rparr>)"

record AnnualRevenue =
  charging_revenue :: real
  idle_fees :: real
  memberships :: real
  total_revenue :: real

definition calculate_total_annual_revenue ::
  "rounding \<Rightarrow> EnhancedSuperchargerCalculator \<Rightarrow> py_error + AnnualRevenue" where
  "calculate_total_annual_revenue rnd self =
     (case calculate_charging_revenue rnd self of
        Inl e \<Rightarrow> Inl e
      | Inr charging_rev \<Rightarrow>
          (let additional_rev = calculate_additional_revenue rnd self
           in Inr \<lparr> charging_revenue = total_charging_revenue charging_rev,
                    idle_fees = idle_fee_revenue additional_rev,
                    memberships = membership_revenue additional_rev,
                    total_revenue = rnd (total_charging_revenue charging_rev +
                                         total_additional_revenue additional_rev) \<rparr>))"

record ElectricityCosts =
  peak_electricity_cost :: real
  standard_electricity_cost :: real
  off_peak_electricity_cost :: real
  total_electricity_cost :: real

definition calculate_electricity_costs ::
  "rounding \<Rightarrow> EnhancedSuperchargerCalculator \<Rightarrow> py_error + ElectricityCosts" where
  "calculate_electricity_costs rnd self =
     (case calculate_charging_revenue rnd self of
        Inl e \<Rightarrow> Inl e
      | Inr charging_data \<Rightarrow>
          (let r = revenue self;
               peak_cost = rnd (peak_kwh charging_data * electricity_rate_peak r);
               standard_cost = rnd (standard_kwh charging_data * electricity_rate_standard r);
               off_peak_cost = rnd (off_peak_kwh charging_data * electricity_rate_off_peak r)
           in Inr \<lparr> peak_electricity_cost = peak_cost,
                    standard_electricity_cost = standard_cost,
                    off_peak_electricity_cost = off_peak_cost,
                    total_electricity_cost =
                      rnd (rnd (peak_cost + standard_cost) + off_peak_cost) \<rparr>))"

record AnnualCosts =
  electricity_costs :: real
  fixed_operating_costs :: real
  total_annual_costs :: real

definition calculate_total_annual_costs ::
  "rounding \<Rightarrow> EnhancedSuperchargerCalculator \<Rightarrow> py_error + AnnualCosts" where
  "calculate_total_annual_costs rnd self =
     (case calculate_electricity_costs rnd self of
        Inl e \<Rightarrow> Inl e
      | Inr electricity \<Rightarrow>
          (let fixed_costs = total_fixed rnd (operating self)
           in Inr \<lparr> electricity_costs = total_electricity_cost electricity,
                    fixed_operating_costs = fixed_costs,
                    total_annual_costs =
                      rnd (total_electricity_cost electricity + fixed_costs) \<rparr>))"

definition calculate_annual_profit ::
  "rounding \<Rightarrow> EnhancedSuperchargerCalculator \<Rightarrow> py_error + real" where
  "calculate_annual_profit rnd self =
     (case calculate_total_annual_revenue rnd self of
        Inl e \<Rightarrow> Inl e
      | Inr rvn \<Rightarrow>
          (case calculate_total_annual_costs rnd self of
             Inl e \<Rightarrow> Inl e
           | Inr costs \<Rightarrow> Inr (rnd (total_revenue rvn - total_annual_costs costs))))"

record RoiMetrics =
  roi_percentage :: real
  payback_period_years :: py_float
  year_5_cumulative_profit :: real
  year_10_cumulative_profit :: real

definition calculate_roi_metrics ::
  "rounding \<Rightarrow> EnhancedSuperchargerCalculator \<Rightarrow> py_error + RoiMetrics" where
  "calculate_roi_metrics rnd self =
     (let initial_investment = inv_total (calculate_total_initial_investment rnd self)
      in case calculate_annual_profit rnd self of
           Inl e \<Rightarrow> Inl e
         | Inr annual_profit \<Rightarrow>
             (let roi = (if initial_investment > 0
                         then rnd (rnd (annual_profit / initial_investment) * 100) else 0);
                  payback = (if annual_profit > 0
                             then Finite (rnd (initial_investment / annual_profit))
                             else Infinity);
                  year_5_total = rnd (rnd (annual_profit * 5) - initial_investment);
                  year_10_total = rnd (rnd (annual_profit * 10) - initial_investment)
              in Inr \<lparr> roi_percentage = roi,
                       payback_period_years = payback,
                       year_5_cumulative_profit = year_5_total,
                       year_10_cumulative_profit = year_10_total \<rparr>))"

section \<open>market\_analysis.py: the dataset and its derived columns\<close>

text \<open>
  The analyzer keeps a pandas DataFrame. A row of the table is a record, the table is the
  list of its rows in index order, and a column is a field of the row record. The
  column \<open>region\<close>, which does not exist after construction, is kept beside the rows
  as an optional list aligned with them.

  The columns \<open>population\<close> and \<open>chargers\<close> hold 64-bit integers; pandas converts
  them to doubles before it divides, and adds them as integers. pandas divides by zero
  without raising (the quotient is \<open>inf\<close> or \<open>NaN\<close>); such values are outside the
  numbers of this model, so the derived columns and the aggregates below are those of the
  source wherever no divisor is zero. Every divisor that arises from the embedded
  dataset is nonzero (\<open>dataset_divisors_nonzero\<close>). The decimal literals of the
  coordinates stand for the doubles nearest to them; no computation of the analyzer reads
  a coordinate.
\<close>

type_synonym metro_area = "string \<times> string \<times> real \<times> real \<times> int \<times> int"

definition US_METRO_AREAS :: "metro_area list" where
  "US_METRO_AREAS =
    [(''New York'', ''NY'', 40.7128, - 74.0060, 8336817, 45),
     (''Los Angeles'', ''CA'', 34.0522, - 118.2437, 3898747, 52),
     (''Chicago'', ''IL'', 41.8781, - 87.6298, 2746388, 28),
     (''Houston'', ''TX'', 29.7604, - 95.3698, 2304580, 25),
     (''Phoenix'', ''AZ'', 33.4484, - 112.0740, 1608139, 18),
     (''Philadelphia'', ''PA'', 39.9526, - 75.1652, 1603797, 15),
     (''San Antonio'', ''TX'', 29.4241, - 98.4936, 1434625, 12),
     (''San Diego'', ''CA'', 32.7157, - 117.1611, 1386932, 22),
     (''Dallas'', ''TX'', 32.7767, - 96.7970, 1304379, 24),
     (''San Jose'', ''CA'', 37.3382, - 121.8863, 1013240, 28),
     (''Austin'', ''TX'', 30.2672, - 97.7431, 961855, 16),
     (''Jacksonville'', ''FL'', 30.3322, - 81.6557, 949611, 8),
     (''Fort Worth'', ''TX'', 32.7555, - 97.3308, 918915, 10),
     (''Columbus'', ''OH'', 39.9612, - 82.9988, 905748, 9),
     (''Charlotte'', ''NC'', 35.2271, - 80.8431, 897720, 11),
     (''San Francisco'', ''CA'', 37.7749, - 122.4194, 873965, 35),
     (''Indianapolis'', ''IN'', 39.7684, - 86.1581, 887642, 8),
     (''Seattle'', ''WA'', 47.6062, - 122.3321, 749256, 30),
     (''Denver'', ''CO'', 39.7392, - 104.9903, 715522, 20),
     (''Washington'', ''DC'', 38.9072, - 77.0369, 712816, 25),
     (''Boston'', ''MA'', 42.3601, - 71.0589, 675647, 22),
     (''Nashville'', ''TN'', 36.1627, - 86.7816, 689447, 10),
     (''Detroit'', ''MI'', 42.3314, - 83.0458, 639111, 12),
     (''Oklahoma City'', ''OK'', 35.4676, - 97.5164, 687725, 7),
     (''Portland'', ''OR'', 45.5152, - 122.6784, 652503, 18),
     (''Las Vegas'', ''NV'', 36.1699, - 115.1398, 656274, 15),
     (''Memphis'', ''TN'', 35.1495, - 90.0490, 633104, 6),
     (''Louisville'', ''KY'', 38.2527, - 85.7585, 633045, 5),
     (''Baltimore'', ''MD'', 39.2904, - 76.6122, 585708, 10),
     (''Milwaukee'', ''WI'', 43.0389, - 87.9065, 577222, 8),
     (''Albuquerque'', ''NM'', 35.0844, - 106.6504, 564559, 9),
     (''Tucson'', ''AZ'', 32.2226, - 110.9747, 548073, 8),
     (''Fresno'', ''CA'', 36.7378, - 119.7871, 542107, 6),
     (''Sacramento'', ''CA'', 38.5816, - 121.4944, 524943, 14),
     (''Kansas City'', ''MO'', 39.0997, - 94.5786, 508090, 9),
     (''Atlanta'', ''GA'', 33.7490, - 84.3880, 498715, 20),
     (''Miami'', ''FL'', 25.7617, - 80.1918, 449514, 18),
     (''Raleigh'', ''NC'', 35.7796, - 78.6382, 474069, 8),
     (''Omaha'', ''NE'', 41.2565, - 95.9345, 486051, 5),
     (''Colorado Springs'', ''CO'', 38.8339, - 104.8214, 478961, 7),
     (''Minneapolis'', ''MN'', 44.9778, - 93.2650, 425403, 15),
     (''Tampa'', ''FL'', 27.9506, - 82.4572, 398173, 12),
     (''Orlando'', ''FL'', 28.5383, - 81.3792, 307573, 14),
     (''Cleveland'', ''OH'', 41.4993, - 81.6944, 372624, 7),
     (''Boise'', ''ID'', 43.6150, - 116.2023, 235684, 6),
     (''Salt Lake City'', ''UT'', 40.7608, - 111.8910, 200567, 12),
     (''Buffalo'', ''NY'', 42.8864, - 78.8784, 276807, 5),
     (''Pittsburgh'', ''PA'', 40.4406, - 79.9959, 302971, 8),
     (''Cincinnati'', ''OH'', 39.1031, - 84.5120, 309317, 7),
     (''Anchorage'', ''AK'', 61.2181, - 149.9003, 291247, 3),
     (''St. Louis'', ''MO'', 38.6270, - 90.1994, 301578, 10),
     (''Madison'', ''WI'', 43.0731, - 89.4012, 269840, 5),
     (''Des Moines'', ''IA'', 41.6005, - 93.6091, 214133, 4),
     (''Richmond'', ''VA'', 37.5407, - 77.4360, 230436, 6),
     (''Charleston'', ''SC'', 32.7765, - 79.9311, 150227, 4),
     (''Birmingham'', ''AL'', 33.5186, - 86.8104, 200733, 5),
     (''New Orleans'', ''LA'', 29.9511, - 90.0715, 383997, 6),
     (''Little Rock'', ''AR'', 34.7465, - 92.2896, 202591, 3),
     (''Spokane'', ''WA'', 47.6588, - 117.4260, 228989, 5),
     (''Fargo'', ''ND'', 46.8772, - 96.7898, 125990, 2),
     (''Sioux Falls'', ''SD'', 43.5460, - 96.7313, 192517, 3)]"

record density_row =
  city :: string
  state :: string
  population :: int
  chargers :: int
  people_per_charger :: real
  chargers_per_100k :: real
  coverage_gap :: real

record opportunity_row = density_row +
  opportunity_score :: real

record market_row = opportunity_row +
  lat :: real
  lon :: real
  market_size_score :: real

record dataframe =
  rows :: "market_row list"
  region :: "string list option"

record MarketAnalyzer =
  df :: dataframe

definition create_dataframe :: "metro_area list" where
  "create_dataframe = US_METRO_AREAS"

definition metrics_row :: "rounding \<Rightarrow> int \<Rightarrow> real \<Rightarrow> metro_area \<Rightarrow> market_row" where
  \<comment> \<open>the columns that \<open>_calculate_metrics\<close> adds, for one row of the table; the
      arguments after the rounding are the aggregates over the whole table\<close>
  "metrics_row rnd max_population avg_per_100k raw =
     (case raw of (c, s, la, lo, p, ch) \<Rightarrow>
        (let ppc = rnd (rnd (of_int p) / rnd (of_int ch));
             per_100k = rnd (rnd (rnd (of_int ch) / rnd (of_int p)) * 100000);
             size_score = rnd (rnd (rnd (of_int p) / rnd (of_int max_population)) * 100)
         in \<lparr> city = c, state = s, population = p, chargers = ch,
              people_per_charger = ppc,
              chargers_per_100k = per_100k,
              coverage_gap = rnd (per_100k - avg_per_100k),
              opportunity_score =
                rnd (rnd (rnd (size_score / 100) * rnd (1 / rnd (per_100k / avg_per_100k)))
                     * 100),
              lat = la, lon = lo,
              market_size_score = size_score \<rparr>))"

definition calculate_metrics :: "rounding \<Rightarrow> metro_area list \<Rightarrow> market_row list" where
  "calculate_metrics rnd raw =
     (let max_population = Max (set (map (\<lambda>(c, s, la, lo, p, ch). p) raw));
          avg_chargers_per_100k =
            rnd (rnd (rnd (of_int (sum_list (map (\<lambda>(c, s, la, lo, p, ch). ch) raw))) /
                      rnd (of_int (sum_list (map (\<lambda>(c, s, la, lo, p, ch). p) raw))))
                 * 100000)
      in map (metrics_row rnd max_population avg_chargers_per_100k) raw)"

definition MarketAnalyzer_init :: "rounding \<Rightarrow> MarketAnalyzer" where
  "MarketAnalyzer_init rnd =
     \<lparr> df = \<lparr> rows = calculate_metrics rnd create_dataframe, region = None \<rparr> \<rparr>"

section \<open>market\_analysis.py: the queries\<close>

text \<open>
  Every method is a function from the analyzer to its result and the analyzer after the
  call. \<open>nlargest\<close> and \<open>nsmallest\<close> are the pandas operations with the default
  \<open>keep='first'\<close>: the first \<open>n\<close> rows in descending (ascending) order of the column,
  rows with equal values in their original order, and no row for \<open>n \<le> 0\<close>. pandas
  obtains the descending order by a stable sort of the negated column, as is done here.
\<close>

definition nlargest :: "int \<Rightarrow> ('a \<Rightarrow> real) \<Rightarrow> 'a list \<Rightarrow> 'a list" where
  "nlargest n col xs = take (nat n) (sort_key (\<lambda>r. - col r) xs)"

definition nsmallest :: "int \<Rightarrow> ('a \<Rightarrow> real) \<Rightarrow> 'a list \<Rightarrow> 'a list" where
  "nsmallest n col xs = take (nat n) (sort_key col xs)"

definition opportunity_columns :: "market_row \<Rightarrow> opportunity_row" where
  \<comment> \<open>the column selection of \<open>get_top_opportunities\<close> and \<open>get_underserved_markets\<close>\<close>
  "opportunity_columns r =
     \<lparr> city = city r, state = state r, population = population r, chargers = chargers r,
       people_per_charger = people_per_charger r, chargers_per_100k = chargers_per_100k r,
       coverage_gap = coverage_gap r, opportunity_score = opportunity_score r \<rparr>"

definition density_columns :: "market_row \<Rightarrow> density_row" where
  \<comment> \<open>the column selection of \<open>get_oversaturated_markets\<close>\<close>
  "density_columns r =
     \<lparr> city = city r, state = state r, population = population r, chargers = chargers r,
       people_per_charger = people_per_charger r, chargers_per_100k = chargers_per_100k r,
       coverage_gap = coverage_gap r \<rparr>"

definition get_market_data :: "MarketAnalyzer \<Rightarrow> dataframe \<times> MarketAnalyzer" where
  "get_market_data self = (df self, self)"

definition get_top_opportunities ::
  "int \<Rightarrow> MarketAnalyzer \<Rightarrow> opportunity_row list \<times> MarketAnalyzer" where
  "get_top_opportunities n self =
     (map opportunity_columns (nlargest n opportunity_score (rows (df self))), self)"

definition get_oversaturated_markets ::
  "int \<Rightarrow> MarketAnalyzer \<Rightarrow> density_row list \<times> MarketAnalyzer" where
  "get_oversaturated_markets n self =
     (map density_columns (nlargest n chargers_per_100k (rows (df self))), self)"

definition get_underserved_markets ::
  "int \<Rightarrow> MarketAnalyzer \<Rightarrow> opportunity_row list \<times> MarketAnalyzer" where
  "get_underserved_markets n self =
     (map opportunity_columns (nsmallest n chargers_per_100k (rows (df self))), self)"

text \<open>
  The mean and the median of a column; pandas gives \<open>NaN\<close> for an empty column, which
  is \<open>None\<close> here. pandas takes the mean as the sum of the column divided by the
  number of rows, and the sum is NumPy's pairwise summation of an array of doubles:
  fewer than 8 numbers are added one after the other; up to 128 numbers are added in
  eight running sums, the \<open>i\<close>-th over the positions congruent to \<open>i\<close> modulo 8, which
  are combined as \<open>((r0 + r1) + (r2 + r3)) + ((r4 + r5) + (r6 + r7))\<close> before the last
  \<open>n mod 8\<close> numbers are added one after the other; a longer array is split at the
  largest multiple of 8 not above its middle, and the sums of the two parts are added.
\<close>

fun unrolled_sums :: "rounding \<Rightarrow> real list \<Rightarrow> real list \<Rightarrow> real list \<times> real list" where
  "unrolled_sums rnd r (a0 # a1 # a2 # a3 # a4 # a5 # a6 # a7 # xs) =
     unrolled_sums rnd (map (\<lambda>(r, a). rnd (r + a)) (zip r [a0, a1, a2, a3, a4, a5, a6, a7])) xs"
| "unrolled_sums rnd r xs = (r, xs)"

function pairwise_sum :: "rounding \<Rightarrow> real list \<Rightarrow> real" where
  "pairwise_sum rnd xs =
     (if length xs < 8 then foldl (\<lambda>res x. rnd (res + x)) 0 xs
      else if length xs \<le> 128 then
        (case unrolled_sums rnd (take 8 xs) (drop 8 xs) of
           (r, rest) \<Rightarrow>
             foldl (\<lambda>res x. rnd (res + x))
               (rnd (rnd (rnd (r ! 0 + r ! 1) + rnd (r ! 2 + r ! 3))
                     + rnd (rnd (r ! 4 + r ! 5) + rnd (r ! 6 + r ! 7))))
               rest)
      else (let n2 = length xs div 2 - length xs div 2 mod 8
            in rnd (pairwise_sum rnd (take n2 xs) + pairwise_sum rnd (drop n2 xs))))"
  by pat_completeness auto

termination
proof (relation "measure (\<lambda>(rnd, xs). length xs)")
  show "wf (measure (\<lambda>(rnd :: rounding, xs :: real list). length xs))"
    by simp
next
  fix rnd :: rounding and xs :: "real list" and x :: nat
  assume "\<not> length xs \<le> 128" and x: "x = length xs div 2 - length xs div 2 mod 8"
  then have "length xs div 2 < length xs"
    by linarith
  with x have "x < length xs"
    by linarith
  then show "((rnd, take x xs), rnd, xs) \<in> measure (\<lambda>(rnd, xs). length xs)"
    by simp
next
  fix rnd :: rounding and xs :: "real list" and x :: nat
  assume long: "\<not> length xs \<le> 128" and x: "x = length xs div 2 - length xs div 2 mod 8"
  then have "64 \<le> length xs div 2"
    by linarith
  moreover have "length xs div 2 mod 8 < 8"
    by simp
  ultimately have "0 < x"
    unfolding x by linarith
  with long show "((rnd, drop x xs), rnd, xs) \<in> measure (\<lambda>(rnd, xs). length xs)"
    by simp
qed

declare pairwise_sum.simps [simp del]

definition mean :: "rounding \<Rightarrow> real list \<Rightarrow> real option" where
  "mean rnd xs =
     (if xs = [] then None
      else Some (rnd (pairwise_sum rnd xs / rnd (of_nat (length xs)))))"

definition median :: "rounding \<Rightarrow> real list \<Rightarrow> real option" where
  "median rnd xs =
     (let s = sort xs; n = length s
      in if n = 0 then None
         else if even n then Some (rnd (rnd (s ! (n div 2 - 1) + s ! (n div 2)) / 2))
         else Some (s ! (n div 2)))"

record NationalStats =
  total_population :: int
  total_chargers :: int
  avg_chargers_per_100k :: real
  avg_people_per_charger :: "real option"
  median_people_per_charger :: "real option"
  cities_analyzed :: nat

definition get_national_stats ::
  "rounding \<Rightarrow> MarketAnalyzer \<Rightarrow> NationalStats \<times> MarketAnalyzer" where
  "get_national_stats rnd self =
     (\<lparr> total_population = sum_list (map population (rows (df self))),
        total_chargers = sum_list (map chargers (rows (df self))),
        avg_chargers_per_100k =
          rnd (rnd (rnd (of_int (sum_list (map chargers (rows (df self))))) /
                    rnd (of_int (sum_list (map population (rows (df self))))))
               * 100000),
        avg_people_per_charger = mean rnd (map people_per_charger (rows (df self))),
        median_people_per_charger = median rnd (map people_per_charger (rows (df self))),
        cities_analyzed = length (rows (df self)) \<rparr>, self)"

definition classify_market :: "string \<Rightarrow> string \<Rightarrow> MarketAnalyzer \<Rightarrow> string \<times> MarketAnalyzer" where
  "classify_market c s self =
     (let market = filter (\<lambda>r. city r = c \<and> state r = s) (rows (df self))
      in (case market of
            [] \<Rightarrow> ''Unknown''
          | m # _ \<Rightarrow>
              (let gap = coverage_gap m
               in if gap < - 0.5 then ''Underserved (High Opportunity)''
                  else if gap > 0.5 then ''Oversaturated''
                  else ''Balanced''),
          self))"

definition regions :: "(string \<times> string list) list" where
  "regions =
     [(''Northeast'', [''NY'', ''PA'', ''MA'', ''MD'', ''DC'']),
      (''Southeast'', [''FL'', ''GA'', ''NC'', ''SC'', ''TN'', ''KY'', ''LA'', ''AL'']),
      (''Midwest'', [''IL'', ''OH'', ''MI'', ''WI'', ''MN'', ''MO'', ''IN'', ''IA'', ''ND'', ''SD'',
                     ''NE'', ''KS'']),
      (''Southwest'', [''TX'', ''AZ'', ''NM'', ''OK'', ''AR'']),
      (''West'', [''CA'', ''WA'', ''OR'', ''NV'', ''CO'', ''UT'', ''ID'', ''AK''])]"

fun region_lookup :: "(string \<times> string list) list \<Rightarrow> string \<Rightarrow> string" where
  \<comment> \<open>the loop of \<open>get_region\<close> over the items of the dictionary, in insertion order\<close>
  "region_lookup [] st = ''Other''"
| "region_lookup ((name, states) # rest) st =
     (if st \<in> set states then name else region_lookup rest st)"

definition get_region :: "string \<Rightarrow> string" where
  "get_region st = region_lookup regions st"

record regional_row =
  region_name :: string
  region_population :: int
  region_chargers :: int
  cities :: nat
  region_chargers_per_100k :: real
  region_people_per_charger :: real

text \<open>
  \<open>get_regional_analysis\<close> first assigns the column \<open>region\<close> of the stored table,
  then groups by it (\<open>groupby\<close> orders the groups by their key), adds the two ratios
  and sorts by density, descending. The result's columns \<open>population\<close>, \<open>chargers\<close>,
  \<open>chargers_per_100k\<close> and \<open>people_per_charger\<close> carry the prefix \<open>region_\<close> here.
  pandas does not fix the order of regions of equal density; the model keeps the
  order of the groups for them.
\<close>

definition get_regional_analysis ::
  "rounding \<Rightarrow> MarketAnalyzer \<Rightarrow> regional_row list \<times> MarketAnalyzer" where
  "get_regional_analysis rnd self =
     (let region_column = map (\<lambda>r. get_region (state r)) (rows (df self));
          self' = self\<lparr> df := (df self)\<lparr> region := Some region_column \<rparr> \<rparr>;
          labelled = zip region_column (rows (df self'));
          regional =
            map (\<lambda>g.
                  (let grp = map snd (filter (\<lambda>(l, r). l = g) labelled);
                       pop = sum_list (map population grp);
                       ch = sum_list (map chargers grp)
                   in \<lparr> region_name = g,
                        region_population = pop,
                        region_chargers = ch,
                        cities = length grp,
                        region_chargers_per_100k =
                          rnd (rnd (rnd (of_int ch) / rnd (of_int pop)) * 100000),
                        region_people_per_charger = rnd (rnd (of_int pop) / rnd (of_int ch)) \<rparr>))
                (sort (remdups region_column))
      in (sort_key (\<lambda>g. - region_chargers_per_100k g) regional, self'))"

section \<open>Evaluating the rounding\<close>

text \<open>
  \<open>round_pos\<close> unfolds one doubling or halving at a time. The rules below take several
  steps at once; with them the simplifier evaluates \<open>binary64\<close> on a numeral in a few
  rewrites.
\<close>

lemma round_pos_zero: "round_pos 0 = 0"
  by (subst round_pos.simps) simp

lemma round_pos_in_range:
  "4503599627370496 \<le> x \<Longrightarrow> x < 9007199254740992 \<Longrightarrow>
   round_pos x = of_int (round_half_even x)"
  by (subst round_pos.simps) simp

lemma round_pos_double:
  "0 < x \<Longrightarrow> x < 4503599627370496 \<Longrightarrow> round_pos x = round_pos (x * 2) / 2"
  by (subst round_pos.simps) simp

lemma round_pos_halve:
  "9007199254740992 \<le> x \<Longrightarrow> round_pos x = round_pos (x / 2) * 2"
  by (subst round_pos.simps) simp

lemma round_pos_scale_up:
  "0 < x \<Longrightarrow> x * 2 ^ n \<le> 4503599627370496 \<Longrightarrow>
   round_pos x = round_pos (x * 2 ^ n) / 2 ^ n"
proof (induction n arbitrary: x)
  case 0
  then show ?case by simp
next
  case (Suc n)
  have "x * 2 \<le> x * 2 ^ Suc n"
    using Suc.prems(1) by (simp add: self_le_power)
  with Suc.prems have small: "x < 4503599627370496"
    by linarith
  from Suc.prems have "round_pos (x * 2) = round_pos (x * 2 * 2 ^ n) / 2 ^ n"
    by (intro Suc.IH) (simp_all add: mult.assoc)
  with round_pos_double [OF Suc.prems(1) small] show ?case
    by (simp add: mult.assoc)
qed

lemma round_pos_scale_down:
  "4503599627370496 * 2 ^ n \<le> x \<Longrightarrow> round_pos x = round_pos (x / 2 ^ n) * 2 ^ n"
proof (induction n arbitrary: x)
  case 0
  then show ?case by simp
next
  case (Suc n)
  have "(4503599627370496::real) * 2 \<le> 4503599627370496 * 2 ^ Suc n"
    by (simp add: self_le_power)
  with Suc.prems have big: "9007199254740992 \<le> x"
    by linarith
  from Suc.prems have "round_pos (x / 2) = round_pos (x / 2 / 2 ^ n) * 2 ^ n"
    by (intro Suc.IH) simp
  with round_pos_halve [OF big] show ?case
    by (simp add: field_simps)
qed

lemma round_pos_up:
  "0 < x \<Longrightarrow> x \<le> 1048576 \<Longrightarrow>
   round_pos x = round_pos (x * 4294967296) / 4294967296"
  "1048576 < x \<Longrightarrow> x \<le> 68719476736 \<Longrightarrow>
   round_pos x = round_pos (x * 65536) / 65536"
  "68719476736 < x \<Longrightarrow> x \<le> 17592186044416 \<Longrightarrow>
   round_pos x = round_pos (x * 256) / 256"
  "17592186044416 < x \<Longrightarrow> x \<le> 281474976710656 \<Longrightarrow>
   round_pos x = round_pos (x * 16) / 16"
  "281474976710656 < x \<Longrightarrow> x \<le> 1125899906842624 \<Longrightarrow>
   round_pos x = round_pos (x * 4) / 4"
  "1125899906842624 < x \<Longrightarrow> x < 4503599627370496 \<Longrightarrow>
   round_pos x = round_pos (x * 2) / 2"
  using round_pos_scale_up [of x 32]
    round_pos_scale_up [of x 16]
    round_pos_scale_up [of x 8]
    round_pos_scale_up [of x 4]
    round_pos_scale_up [of x 2]
    round_pos_double [of x]
  by simp_all

lemma round_pos_down:
  "19342813113834066795298816 \<le> x \<Longrightarrow>
   round_pos x = round_pos (x / 4294967296) * 4294967296"
  "295147905179352825856 \<le> x \<Longrightarrow> x < 19342813113834066795298816 \<Longrightarrow>
   round_pos x = round_pos (x / 65536) * 65536"
  "1152921504606846976 \<le> x \<Longrightarrow> x < 295147905179352825856 \<Longrightarrow>
   round_pos x = round_pos (x / 256) * 256"
  "72057594037927936 \<le> x \<Longrightarrow> x < 1152921504606846976 \<Longrightarrow>
   round_pos x = round_pos (x / 16) * 16"
  "18014398509481984 \<le> x \<Longrightarrow> x < 72057594037927936 \<Longrightarrow>
   round_pos x = round_pos (x / 4) * 4"
  "9007199254740992 \<le> x \<Longrightarrow> x < 18014398509481984 \<Longrightarrow>
   round_pos x = round_pos (x / 2) * 2"
  using round_pos_scale_down [of 32 x]
    round_pos_scale_down [of 16 x]
    round_pos_scale_down [of 8 x]
    round_pos_scale_down [of 4 x]
    round_pos_scale_down [of 2 x]
    round_pos_halve [of x]
  by simp_all

lemmas binary64_eval =
  binary64_def round_pos_zero round_pos_in_range round_pos_up round_pos_down
  round_half_even_def Let_def

text \<open>
  Some values: a decimal that is no double, a double, two ties (the integers next to
  \<open>2^53\<close> that need 54 bits), and a negative quotient.
\<close>

lemma binary64_examples:
  "binary64 0.1 = 3602879701896397 / 36028797018963968"
  "binary64 0.375 = 0.375"
  "binary64 9007199254740993 = 9007199254740992"
  "binary64 9007199254740995 = 9007199254740996"
  "binary64 (- 1 / 3) = - (6004799503160661 / 18014398509481984)"
  "exact 0.1 = 0.1"
  by (simp_all add: binary64_eval exact_def)

section \<open>The default configuration in double precision\<close>

text \<open>
  The values the program computes for its default parameters, function by function:
  each is obtained from the definition by evaluating \<open>binary64\<close> on the exact result
  of every operation.
\<close>

lemmas default_defs =
  EnhancedSuperchargerCalculator_init_def InstallationCosts_default_def
  EquipmentCosts_default_def LicensingLegalCosts_default_def AnnualOperatingCosts_default_def

lemma default_revenue_binary64:
  "RevenueParameters_default binary64 =
     \<lparr> num_stalls = 8,
       peak_price = 7566047373982433 / 18014398509481984,
       standard_price = 3152519739159347 / 9007199254740992,
       off_peak_price = 1261007895663739 / 4503599627370496,
       peak_usage_percent = 1 / 4,
       standard_usage_percent = 5404319552844595 / 9007199254740992,
       off_peak_usage_percent = 5404319552844595 / 36028797018963968,
       avg_kwh_per_session = 50,
       sessions_per_stall_per_day = 6,
       utilization_rate = 3152519739159347 / 4503599627370496,
       idle_fee_per_minute = 1 / 2,
       avg_idle_minutes_per_session = 5,
       idle_fee_occurrence_rate = 5404319552844595 / 18014398509481984,
       membership_monthly_fee = 5623870034678907 / 562949953421312,
       percent_members = 5404319552844595 / 36028797018963968,
       member_discount_per_kwh = 3602879701896397 / 72057594037927936,
       summer_multiplier = 2589569785738035 / 2251799813685248,
       winter_multiplier = 4278419646001971 / 4503599627370496,
       spring_fall_multiplier = 1,
       electricity_rate_peak = 3242591731706757 / 18014398509481984,
       electricity_rate_standard = 1261007895663739 / 9007199254740992,
       electricity_rate_off_peak = 3602879701896397 / 36028797018963968,
       weekday_multiplier = 4728779608739021 / 4503599627370496,
       weekend_multiplier = 4278419646001971 / 4503599627370496 \<rparr>"
  unfolding RevenueParameters_default_def
  by (simp add: binary64_eval)

lemma default_baseline_binary64:
  "baseline_sessions binary64 (RevenueParameters_default binary64) = 12264"
  unfolding baseline_sessions_def default_revenue_binary64
  by (simp add: binary64_eval)

lemma default_sessions_binary64:
  assumes "revenue self = RevenueParameters_default binary64"
  shows "calculate_annual_sessions binary64 self =
     \<lparr> weekday_sessions = 9198,
       weekend_sessions = 7320108613081497 / 2199023255552,
       total_sessions = 3443340564706099 / 274877906944,
       peak_sessions = 3443340564706099 / 1099511627776,
       standard_sessions = 8264017355294637 / 1099511627776,
       off_peak_sessions = 8264017355294637 / 4398046511104 \<rparr>"
  unfolding calculate_annual_sessions_def Let_def assms default_baseline_binary64
  unfolding default_revenue_binary64
  by (simp add: binary64_eval)

lemma default_member_adjustment_binary64:
  "member_adjustment binary64 (RevenueParameters_default binary64)
   = Inr (8814187842139399 / 9007199254740992)"
  unfolding member_adjustment_def py_div_def default_revenue_binary64
  by (simp add: binary64_eval)

lemma default_seasonal_avg_binary64:
  "seasonal_avg binary64 (RevenueParameters_default binary64)
   = 2308094809027379 / 2251799813685248"
  unfolding seasonal_avg_def default_revenue_binary64
  by (simp add: binary64_eval)

lemma default_charging_revenue_binary64:
  assumes "revenue self = RevenueParameters_default binary64"
  shows "calculate_charging_revenue binary64 self =
     Inr \<lparr> peak_revenue = 566638006404907 / 8589934592,
           standard_revenue = 2266552025619627 / 17179869184,
           off_peak_revenue = 906620810247851 / 34359738368,
           total_charging_revenue = 7706276887106733 / 34359738368,
           peak_kwh = 156585,
           standard_kwh = 6456263558823935 / 17179869184,
           off_peak_kwh = 6456263558823935 / 68719476736,
           total_kwh = 626340 \<rparr>"
  unfolding calculate_charging_revenue_def Let_def default_sessions_binary64 [OF assms] assms
    default_member_adjustment_binary64 default_seasonal_avg_binary64
  unfolding default_revenue_binary64
  by (simp add: binary64_eval)

lemma default_additional_revenue_binary64:
  assumes "revenue self = RevenueParameters_default binary64"
  shows "calculate_additional_revenue binary64 self =
     \<lparr> idle_fee_revenue = 1291252711764787 / 137438953472,
       membership_revenue = 5159845836212089 / 1099511627776,
       total_additional_revenue = 968116720645649 / 68719476736 \<rparr>"
  unfolding calculate_additional_revenue_def Let_def default_sessions_binary64 [OF assms] assms
  unfolding default_revenue_binary64
  by (simp add: binary64_eval)

lemma default_total_revenue_binary64:
  assumes "revenue self = RevenueParameters_default binary64"
  shows "calculate_total_annual_revenue binary64 self =
     Inr \<lparr> charging_revenue = 7706276887106733 / 34359738368,
           idle_fees = 1291252711764787 / 137438953472,
           memberships = 5159845836212089 / 1099511627776,
           total_revenue = 4095167623714779 / 17179869184 \<rparr>"
  unfolding calculate_total_annual_revenue_def Let_def
    default_charging_revenue_binary64 [OF assms] default_additional_revenue_binary64 [OF assms]
  by (simp add: binary64_eval)

lemma default_electricity_costs_binary64:
  assumes "revenue self = RevenueParameters_default binary64"
  shows "calculate_electricity_costs binary64 self =
     Inr \<lparr> peak_electricity_cost = 7747516270588723 / 274877906944,
           standard_electricity_cost = 903876898235351 / 17179869184,
           off_peak_electricity_cost = 1291252711764787 / 137438953472,
           total_electricity_cost = 3099006508235489 / 34359738368 \<rparr>"
  unfolding calculate_electricity_costs_def Let_def
    default_charging_revenue_binary64 [OF assms] assms
  unfolding default_revenue_binary64
  by (simp add: binary64_eval)

lemma default_total_fixed_binary64:
  "total_fixed binary64 AnnualOperatingCosts_default = 134600"
  unfolding total_fixed_def AnnualOperatingCosts_default_def
  by (simp add: binary64_eval)

lemma default_total_costs_binary64:
  assumes "revenue self = RevenueParameters_default binary64"
    and "operating self = AnnualOperatingCosts_default"
  shows "calculate_total_annual_costs binary64 self =
     Inr \<lparr> electricity_costs = 3099006508235489 / 34359738368,
           fixed_operating_costs = 134600,
           total_annual_costs = 7723827292568289 / 34359738368 \<rparr>"
  unfolding calculate_total_annual_costs_def Let_def
    default_electricity_costs_binary64 [OF assms(1)] assms(2) default_total_fixed_binary64
  by (simp add: binary64_eval)

lemma default_annual_profit_binary64:
  assumes "revenue self = RevenueParameters_default binary64"
    and "operating self = AnnualOperatingCosts_default"
  shows "calculate_annual_profit binary64 self = Inr (466507954861269 / 34359738368)"
  unfolding calculate_annual_profit_def
    default_total_revenue_binary64 [OF assms(1)] default_total_costs_binary64 [OF assms]
  by (simp add: binary64_eval)

lemma default_cost_totals_binary64:
  "InstallationCosts_total binary64 InstallationCosts_default = 385000"
  "EquipmentCosts_total binary64 EquipmentCosts_default = 470000"
  "LicensingLegalCosts_total binary64 LicensingLegalCosts_default = 33000"
  unfolding InstallationCosts_total_def EquipmentCosts_total_def LicensingLegalCosts_total_def
    InstallationCosts_default_def EquipmentCosts_default_def LicensingLegalCosts_default_def
  by (simp_all add: binary64_eval)

lemma default_cost_totals_exact:
  "InstallationCosts_total exact InstallationCosts_default = 385000"
  "EquipmentCosts_total exact EquipmentCosts_default = 470000"
  "LicensingLegalCosts_total exact LicensingLegalCosts_default = 33000"
  unfolding InstallationCosts_total_def EquipmentCosts_total_def LicensingLegalCosts_total_def
    InstallationCosts_default_def EquipmentCosts_default_def LicensingLegalCosts_default_def
  by (simp_all add: exact_def)

section \<open>Facts about the calculators\<close>

lemmas basic_defs =
  calculate_initial_investment_def calculate_annual_revenue_def
  calculate_annual_electricity_cost_def calculate_annual_operating_costs_def
  calculate_annual_profit_basic_def

lemmas enhanced_defs =
  calculate_annual_sessions_def member_adjustment_def py_div_def
  calculate_charging_revenue_def calculate_additional_revenue_def
  calculate_total_annual_revenue_def calculate_electricity_costs_def
  calculate_total_annual_costs_def calculate_annual_profit_def

text \<open>
  The only division of the enhanced calculator whose divisor is unguarded is the one by
  \<open>standard_price\<close> in the member adjustment. It decides whether the revenue, cost,
  profit and ROI computations return or raise.
\<close>

lemma calculate_charging_revenue_raises:
  "standard_price (revenue self) = 0 \<Longrightarrow>
   calculate_charging_revenue rnd self = Inl ZeroDivisionError"
  by (simp add: calculate_charging_revenue_def member_adjustment_def py_div_def Let_def)

lemma calculate_charging_revenue_returns:
  "standard_price (revenue self) \<noteq> 0 \<Longrightarrow> \<exists>c. calculate_charging_revenue rnd self = Inr c"
  by (simp add: calculate_charging_revenue_def member_adjustment_def py_div_def Let_def)

lemma calculate_annual_profit_raises:
  "standard_price (revenue self) = 0 \<Longrightarrow>
   calculate_annual_profit rnd self = Inl ZeroDivisionError"
  by (simp add: enhanced_defs Let_def)

lemma calculate_annual_profit_returns:
  "standard_price (revenue self) \<noteq> 0 \<Longrightarrow> \<exists>p. calculate_annual_profit rnd self = Inr p"
  by (simp add: enhanced_defs Let_def)

lemma calculate_roi_metrics_raises:
  "calculate_annual_profit rnd self = Inl e \<Longrightarrow> calculate_roi_metrics rnd self = Inl e"
  by (simp add: calculate_roi_metrics_def Let_def)

lemma calculate_roi_metrics_Inr:
  "calculate_annual_profit rnd self = Inr p \<Longrightarrow>
   calculate_roi_metrics rnd self =
     Inr \<lparr> roi_percentage =
             (if inv_total (calculate_total_initial_investment rnd self) > 0
              then rnd (rnd (p / inv_total (calculate_total_initial_investment rnd self)) * 100)
              else 0),
           payback_period_years =
             (if p > 0
              then Finite (rnd (inv_total (calculate_total_initial_investment rnd self) / p))
              else Infinity),
           year_5_cumulative_profit =
             rnd (rnd (p * 5) - inv_total (calculate_total_initial_investment rnd self)),
           year_10_cumulative_profit =
             rnd (rnd (p * 10) - inv_total (calculate_total_initial_investment rnd self)) \<rparr>"
  by (simp add: calculate_roi_metrics_def Let_def)

lemma default_calculator_parts:
  "installation (EnhancedSuperchargerCalculator_init rnd None e l oc r) = InstallationCosts_default"
  "equipment (EnhancedSuperchargerCalculator_init rnd i None l oc r) = EquipmentCosts_default"
  "licensing (EnhancedSuperchargerCalculator_init rnd i e None oc r) = LicensingLegalCosts_default"
  "operating (EnhancedSuperchargerCalculator_init rnd i e l None r) = AnnualOperatingCosts_default"
  "revenue (EnhancedSuperchargerCalculator_init rnd i e l oc None) = RevenueParameters_default rnd"
  "installation (EnhancedSuperchargerCalculator_init rnd (Some i') e l oc r) = i'"
  "equipment (EnhancedSuperchargerCalculator_init rnd i (Some e') l oc r) = e'"
  "revenue (EnhancedSuperchargerCalculator_init rnd i e l oc (Some r')) = r'"
  by (simp_all add: EnhancedSuperchargerCalculator_init_def)

lemma default_basic_binary64:
  "calculate_initial_investment binary64 (SuperchargerProfitabilityCalculator_default binary64)
   = 405000"
  "calculate_annual_profit_basic binary64 (SuperchargerProfitabilityCalculator_default binary64)
   = 63200"
  unfolding basic_defs Let_def SuperchargerProfitabilityCalculator_default_def
  by (simp_all add: binary64_eval)

lemma no_stalls_basic_binary64:
  "calculate_annual_profit_basic binary64
     (SuperchargerProfitabilityCalculator_default binary64\<lparr>SuperchargerProfitabilityCalculator.num_stalls := 0\<rparr>) = - 39000"
  unfolding basic_defs Let_def SuperchargerProfitabilityCalculator_default_def
  by (simp add: binary64_eval)

lemma default_investment_binary64:
  assumes "installation self = InstallationCosts_default"
    and "equipment self = EquipmentCosts_default"
    and "licensing self = LicensingLegalCosts_default"
  shows "calculate_total_initial_investment binary64 self
     = \<lparr> inv_installation = 385000, inv_equipment = 470000,
         inv_licensing_legal = 33000, inv_total = 888000 \<rparr>"
  unfolding calculate_total_initial_investment_def assms default_cost_totals_binary64
  by (simp add: binary64_eval)

section \<open>Initial investment of the default configuration\<close>

text \<open>
  C1, as the specification states it: with every cost field at its default the
  installation group totals 410,000. It does not: the seven declared defaults
  (50,000 + 150,000 + 40,000 + 80,000 + 25,000 + 15,000 + 25,000) add up to 385,000,
  in double precision as in exact arithmetic.
\<close>

theorem default_installation_total_counterexample:
  "InstallationCosts_total binary64 InstallationCosts_default = 385000
   \<and> InstallationCosts_total binary64 InstallationCosts_default \<noteq> 410000
   \<and> InstallationCosts_total exact InstallationCosts_default \<noteq> 410000"
  by (simp add: default_cost_totals_binary64 default_cost_totals_exact)

text \<open>
  C1, amended: with every cost field at its default (8 stalls, 30,000 per charger) the
  installation group totals 385,000, the licensing group 33,000, the equipment group
  \<open>charger_unit_cost \<times> num_stalls\<close> plus its seven fixed parts, which is 470,000, and the
  total initial investment is the sum of the three group totals, 888,000.
\<close>

theorem default_initial_investment:
  "InstallationCosts_total binary64 InstallationCosts_default = 385000
   \<and> LicensingLegalCosts_total binary64 LicensingLegalCosts_default = 33000
   \<and> EquipmentCosts_total binary64 EquipmentCosts_default
       = 30000 * 8 + (45000 + 35000 + 25000 + 80000 + 15000 + 12000 + 18000)
   \<and> calculate_total_initial_investment binary64
        (EnhancedSuperchargerCalculator_init binary64 None None None None None)
       = \<lparr> inv_installation = 385000, inv_equipment = 470000,
           inv_licensing_legal = 33000, inv_total = 385000 + 470000 + 33000 \<rparr>
   \<and> EquipmentCosts_total exact e
       = charger_unit_cost e * of_int (EquipmentCosts.num_stalls e)
         + (transformer_cost e + switchgear_cost e + cabling_materials e + canopy_shelter e
            + signage_lighting e + payment_systems e + monitoring_systems e)
   \<and> inv_total (calculate_total_initial_investment exact self)
       = InstallationCosts_total exact (installation self)
         + EquipmentCosts_total exact (equipment self)
         + LicensingLegalCosts_total exact (licensing self)"
proof -
  have "calculate_total_initial_investment binary64
        (EnhancedSuperchargerCalculator_init binary64 None None None None None)
       = \<lparr> inv_installation = 385000, inv_equipment = 470000,
           inv_licensing_legal = 33000, inv_total = 888000 \<rparr>"
    by (rule default_investment_binary64) (simp_all add: default_calculator_parts)
  moreover have "EquipmentCosts_total exact e
       = charger_unit_cost e * of_int (EquipmentCosts.num_stalls e)
         + (transformer_cost e + switchgear_cost e + cabling_materials e + canopy_shelter e
            + signage_lighting e + payment_systems e + monitoring_systems e)"
    by (simp add: EquipmentCosts_total_def exact_def)
  moreover have "inv_total (calculate_total_initial_investment exact self)
       = InstallationCosts_total exact (installation self)
         + EquipmentCosts_total exact (equipment self)
         + LicensingLegalCosts_total exact (licensing self)"
    by (simp add: calculate_total_initial_investment_def exact_def)
  ultimately show ?thesis
    by (simp add: default_cost_totals_binary64)
qed

section \<open>Payback period\<close>

text \<open>
  C2: in both calculators, whatever the rounding, the payback period is the quotient
  \<open>initial_investment / annual_profit\<close> when the annual profit is positive and the
  "never" value \<open>float('inf')\<close> when it is zero or negative; that value differs from
  every finite one. The enhanced calculator's annual profit exists when its computation
  has not raised.
\<close>

theorem payback_period_never_or_ratio:
  "calculate_payback_period rnd c =
     (if calculate_annual_profit_basic rnd c > 0
      then Finite (rnd (calculate_initial_investment rnd c / calculate_annual_profit_basic rnd c))
      else Infinity)
   \<and> (\<forall>p. calculate_annual_profit rnd self = Inr p \<longrightarrow>
         (\<exists>m. calculate_roi_metrics rnd self = Inr m \<and>
              payback_period_years m =
                (if p > 0
                 then Finite (rnd (inv_total (calculate_total_initial_investment rnd self) / p))
                 else Infinity)))
   \<and> (\<forall>x. Infinity \<noteq> Finite x)"
  by (simp add: calculate_payback_period_def calculate_roi_metrics_def Let_def)

theorem payback_period_never_or_ratio_witness:
  "calculate_annual_profit binary64
     (EnhancedSuperchargerCalculator_init binary64 None None None None None)
     = Inr (466507954861269 / 34359738368)
   \<and> (\<exists>m. calculate_roi_metrics binary64
            (EnhancedSuperchargerCalculator_init binary64 None None None None None) = Inr m
          \<and> payback_period_years m = Finite (4602391520363411 / 70368744177664))
   \<and> calculate_payback_period binary64 (SuperchargerProfitabilityCalculator_default binary64)
     = Finite (1803755784300881 / 281474976710656)
   \<and> calculate_payback_period binary64
       (SuperchargerProfitabilityCalculator_default binary64\<lparr>SuperchargerProfitabilityCalculator.num_stalls := 0\<rparr>)
     = Infinity"
proof -
  let ?d = "EnhancedSuperchargerCalculator_init binary64 None None None None None"
  let ?b = "SuperchargerProfitabilityCalculator_default binary64"
  have prof: "calculate_annual_profit binary64 ?d = Inr (466507954861269 / 34359738368)"
    by (rule default_annual_profit_binary64) (simp_all add: default_calculator_parts)
  have inv: "inv_total (calculate_total_initial_investment binary64 ?d) = 888000"
    by (subst default_investment_binary64) (simp_all add: default_calculator_parts)
  from payback_period_never_or_ratio [of binary64 ?b ?d] prof obtain m where
    m: "calculate_roi_metrics binary64 ?d = Inr m"
       "payback_period_years m =
          (if (466507954861269 / 34359738368 :: real) > 0
           then Finite (binary64 (inv_total (calculate_total_initial_investment binary64 ?d)
                                  / (466507954861269 / 34359738368)))
           else Infinity)"
    by blast
  from m(2) have pay: "payback_period_years m = Finite (4602391520363411 / 70368744177664)"
    unfolding inv by (simp add: binary64_eval)
  from payback_period_never_or_ratio [of binary64 ?b ?d]
  have "calculate_payback_period binary64 ?b =
     (if calculate_annual_profit_basic binary64 ?b > 0
      then Finite (binary64 (calculate_initial_investment binary64 ?b
                             / calculate_annual_profit_basic binary64 ?b))
      else Infinity)"
    by (rule conjunct1)
  then have basic: "calculate_payback_period binary64 ?b = Finite (1803755784300881 / 281474976710656)"
    unfolding default_basic_binary64 by (simp add: binary64_eval)
  from payback_period_never_or_ratio [of binary64 "?b\<lparr>SuperchargerProfitabilityCalculator.num_stalls := 0\<rparr>" ?d]
  have "calculate_payback_period binary64 (?b\<lparr>SuperchargerProfitabilityCalculator.num_stalls := 0\<rparr>) =
     (if calculate_annual_profit_basic binary64 (?b\<lparr>SuperchargerProfitabilityCalculator.num_stalls := 0\<rparr>) > 0
      then Finite (binary64 (calculate_initial_investment binary64 (?b\<lparr>SuperchargerProfitabilityCalculator.num_stalls := 0\<rparr>)
                             / calculate_annual_profit_basic binary64 (?b\<lparr>SuperchargerProfitabilityCalculator.num_stalls := 0\<rparr>)))
      else Infinity)"
    by (rule conjunct1)
  then have never: "calculate_payback_period binary64 (?b\<lparr>SuperchargerProfitabilityCalculator.num_stalls := 0\<rparr>) = Infinity"
    unfolding no_stalls_basic_binary64 by simp
  from prof m(1) pay basic never show ?thesis by blast
qed

section \<open>Return on investment\<close>

lemma negative_installation_total_binary64:
  "InstallationCosts_total binary64 (InstallationCosts_default\<lparr>site_preparation := - 1000000\<rparr>)
   = - 665000"
  unfolding InstallationCosts_total_def InstallationCosts_default_def
  by (simp add: binary64_eval)

lemma negative_equipment_total_binary64:
  "EquipmentCosts_total binary64 (EquipmentCosts_default\<lparr>charger_unit_cost := - 200000\<rparr>)
   = - 1370000"
  unfolding EquipmentCosts_total_def EquipmentCosts_default_def
  by (simp add: binary64_eval)

text \<open>
  C3, as the specification states it: in every configuration the ROI is
  \<open>annual_profit / initial_investment \<times> 100\<close> whenever the investment is nonzero. The
  enhanced calculator tests \<open>initial_investment > 0\<close>: with the site preparation set to
  -1,000,000 and every other field at its default the investment is -162,000, the
  annual profit is about 13,577.17, and the ROI returned is 0, not the quotient.
\<close>

theorem roi_nonzero_investment_counterexample:
  "calculate_total_initial_investment binary64
     (EnhancedSuperchargerCalculator_init binary64
        (Some (InstallationCosts_default\<lparr>site_preparation := - 1000000\<rparr>))
        None None None None)
     = \<lparr> inv_installation = - 665000, inv_equipment = 470000,
         inv_licensing_legal = 33000, inv_total = - 162000 \<rparr>
   \<and> calculate_annual_profit binary64
     (EnhancedSuperchargerCalculator_init binary64
        (Some (InstallationCosts_default\<lparr>site_preparation := - 1000000\<rparr>))
        None None None None)
     = Inr (466507954861269 / 34359738368)
   \<and> calculate_roi_metrics binary64
     (EnhancedSuperchargerCalculator_init binary64
        (Some (InstallationCosts_default\<lparr>site_preparation := - 1000000\<rparr>))
        None None None None)
     = Inr \<lparr> roi_percentage = 0,
             payback_period_years = Finite (- 419812740033149 / 35184372088832),
             year_5_cumulative_profit = 7898817389922345 / 34359738368,
             year_10_cumulative_profit = 5115678582114345 / 17179869184 \<rparr>
   \<and> (466507954861269 / 34359738368) / (- 162000) * 100 \<noteq> (0 :: real)"
proof -
  let ?n = "EnhancedSuperchargerCalculator_init binary64
        (Some (InstallationCosts_default\<lparr>site_preparation := - 1000000\<rparr>))
        None None None None"
  have inv: "calculate_total_initial_investment binary64 ?n
     = \<lparr> inv_installation = - 665000, inv_equipment = 470000,
         inv_licensing_legal = 33000, inv_total = - 162000 \<rparr>"
    unfolding calculate_total_initial_investment_def default_calculator_parts
      negative_installation_total_binary64 default_cost_totals_binary64
    by (simp add: binary64_eval)
  have prof: "calculate_annual_profit binary64 ?n = Inr (466507954861269 / 34359738368)"
    by (rule default_annual_profit_binary64) (simp_all add: default_calculator_parts)
  have "calculate_roi_metrics binary64 ?n
     = Inr \<lparr> roi_percentage = 0,
             payback_period_years = Finite (- 419812740033149 / 35184372088832),
             year_5_cumulative_profit = 7898817389922345 / 34359738368,
             year_10_cumulative_profit = 5115678582114345 / 17179869184 \<rparr>"
    unfolding calculate_roi_metrics_Inr [OF prof] inv
    by (simp add: binary64_eval)
  with inv prof show ?thesis by simp
qed

text \<open>
  C3, amended: the basic calculator returns \<open>annual_profit / initial_investment \<times> 100\<close>
  whenever the investment is nonzero and 0 when it is exactly 0; the enhanced calculator
  returns that quotient when the investment is positive and 0 when it is zero or
  negative. In both, an investment of exactly 0 gives 0 whatever the sign of the profit,
  and the ROI step raises no error.
\<close>

theorem roi_percentage_by_calculator:
  "calculate_roi rnd c =
     (if calculate_initial_investment rnd c = 0 then 0
      else rnd (rnd (calculate_annual_profit_basic rnd c / calculate_initial_investment rnd c)
                * 100))
   \<and> (\<forall>p. calculate_annual_profit rnd self = Inr p \<longrightarrow>
         (\<exists>m. calculate_roi_metrics rnd self = Inr m \<and>
              roi_percentage m =
                (if inv_total (calculate_total_initial_investment rnd self) > 0
                 then rnd (rnd (p / inv_total (calculate_total_initial_investment rnd self))
                           * 100)
                 else 0)))"
  by (simp add: calculate_roi_def calculate_roi_metrics_def Let_def)

theorem roi_percentage_by_calculator_witness:
  "calculate_annual_profit binary64
     (EnhancedSuperchargerCalculator_init binary64 None None None None None)
     = Inr (466507954861269 / 34359738368)
   \<and> (\<exists>m. calculate_roi_metrics binary64
            (EnhancedSuperchargerCalculator_init binary64 None None None None None) = Inr m
          \<and> roi_percentage m = 6885825524727055 / 4503599627370496)
   \<and> calculate_roi binary64 (SuperchargerProfitabilityCalculator_default binary64)
     = 549049954571403 / 35184372088832"
proof -
  let ?d = "EnhancedSuperchargerCalculator_init binary64 None None None None None"
  let ?b = "SuperchargerProfitabilityCalculator_default binary64"
  have prof: "calculate_annual_profit binary64 ?d = Inr (466507954861269 / 34359738368)"
    by (rule default_annual_profit_binary64) (simp_all add: default_calculator_parts)
  have inv: "inv_total (calculate_total_initial_investment binary64 ?d) = 888000"
    by (subst default_investment_binary64) (simp_all add: default_calculator_parts)
  from roi_percentage_by_calculator [of binary64 ?b ?d] prof obtain m where
    m: "calculate_roi_metrics binary64 ?d = Inr m"
       "roi_percentage m =
          (if inv_total (calculate_total_initial_investment binary64 ?d) > 0
           then binary64 (binary64 ((466507954861269 / 34359738368)
                  / inv_total (calculate_total_initial_investment binary64 ?d)) * 100)
           else 0)"
    by blast
  from m(2) have r: "roi_percentage m = 6885825524727055 / 4503599627370496"
    unfolding inv by (simp add: binary64_eval)
  from roi_percentage_by_calculator [of binary64 ?b ?d]
  have "calculate_roi binary64 ?b =
     (if calculate_initial_investment binary64 ?b = 0 then 0
      else binary64 (binary64 (calculate_annual_profit_basic binary64 ?b
                               / calculate_initial_investment binary64 ?b) * 100))"
    by (rule conjunct1)
  then have basic: "calculate_roi binary64 ?b = 549049954571403 / 35184372088832"
    unfolding default_basic_binary64 by (simp add: binary64_eval)
  from prof m(1) r basic show ?thesis by blast
qed

text \<open>
  C9: in the enhanced calculator a configuration whose total initial investment is
  negative (or zero) has \<open>roi_percentage = 0\<close>: the branch is taken for every
  non-positive investment.
\<close>

theorem roi_zero_for_nonpositive_investment:
  assumes "inv_total (calculate_total_initial_investment rnd self) \<le> 0"
    and "calculate_annual_profit rnd self = Inr p"
  shows "\<exists>m. calculate_roi_metrics rnd self = Inr m \<and> roi_percentage m = 0"
  using assms by (simp add: calculate_roi_metrics_def Let_def)

theorem roi_zero_for_nonpositive_investment_witness:
  "inv_total (calculate_total_initial_investment binary64
     (EnhancedSuperchargerCalculator_init binary64 None
        (Some (EquipmentCosts_default\<lparr>charger_unit_cost := - 200000\<rparr>)) None None None))
     = - 952000
   \<and> calculate_annual_profit binary64
     (EnhancedSuperchargerCalculator_init binary64 None
        (Some (EquipmentCosts_default\<lparr>charger_unit_cost := - 200000\<rparr>)) None None None)
     = Inr (466507954861269 / 34359738368)
   \<and> (\<exists>m. calculate_roi_metrics binary64
     (EnhancedSuperchargerCalculator_init binary64 None
        (Some (EquipmentCosts_default\<lparr>charger_unit_cost := - 200000\<rparr>)) None None None)
     = Inr m \<and> roi_percentage m = 0)"
proof -
  let ?n = "EnhancedSuperchargerCalculator_init binary64 None
        (Some (EquipmentCosts_default\<lparr>charger_unit_cost := - 200000\<rparr>)) None None None"
  have inv: "inv_total (calculate_total_initial_investment binary64 ?n) = - 952000"
    unfolding calculate_total_initial_investment_def default_calculator_parts
      negative_equipment_total_binary64 default_cost_totals_binary64
    by (simp add: binary64_eval)
  have prof: "calculate_annual_profit binary64 ?n = Inr (466507954861269 / 34359738368)"
    by (rule default_annual_profit_binary64) (simp_all add: default_calculator_parts)
  have "inv_total (calculate_total_initial_investment binary64 ?n) \<le> 0"
    unfolding inv by simp
  from roi_zero_for_nonpositive_investment [OF this prof] inv prof
  show ?thesis by blast
qed

section \<open>Annual sessions\<close>

lemma three_stalls_sessions_binary64:
  assumes "revenue self = RevenueParameters_default binary64
          \<lparr>num_stalls := 3, peak_usage_percent := 0.375, standard_usage_percent := 0.5,
           off_peak_usage_percent := 0.125\<rparr>"
  shows "calculate_annual_sessions binary64 self =
     \<lparr> weekday_sessions = 13797 / 4,
       weekend_sessions = 5490081459811123 / 4398046511104,
       total_sessions = 5165010847059149 / 1099511627776,
       peak_sessions = 1936879067647181 / 1099511627776,
       standard_sessions = 5165010847059149 / 2199023255552,
       off_peak_sessions = 5165010847059149 / 8796093022208 \<rparr>"
proof -
  have base: "baseline_sessions binary64 (revenue self) = 4599"
    unfolding baseline_sessions_def assms default_revenue_binary64
    by (simp add: binary64_eval)
  show ?thesis
    unfolding calculate_annual_sessions_def Let_def base
    unfolding assms default_revenue_binary64
    by (simp add: binary64_eval)
qed

text \<open>
  C4, as the specification states it: whenever the three usage shares sum exactly to 1,
  the three tier counts sum exactly to the adjusted total. In the arithmetic of the program
  they need not. With 3 stalls, the shares 0.375, 0.5 and 0.125 (three doubles whose sum
  is 1, exactly and as the program adds them) and every other parameter at its default,
  the adjusted total is 5165010847059149 / 2^40 (Python prints 4697.55); the tier counts
  1761.5812500000002, 2348.775 and 587.19375 add up to 5165010847059150 / 2^40
  (4697.550000000001) as the program adds them, and to 41320086776473193 / 2^43 exactly.
\<close>

theorem tier_sessions_sum_counterexample:
  "peak_usage_percent (RevenueParameters_default binary64
          \<lparr>num_stalls := 3, peak_usage_percent := 0.375, standard_usage_percent := 0.5,
           off_peak_usage_percent := 0.125\<rparr>)
   + standard_usage_percent (RevenueParameters_default binary64
          \<lparr>num_stalls := 3, peak_usage_percent := 0.375, standard_usage_percent := 0.5,
           off_peak_usage_percent := 0.125\<rparr>)
   + off_peak_usage_percent (RevenueParameters_default binary64
          \<lparr>num_stalls := 3, peak_usage_percent := 0.375, standard_usage_percent := 0.5,
           off_peak_usage_percent := 0.125\<rparr>) = 1
   \<and> calculate_annual_sessions binary64
     (EnhancedSuperchargerCalculator_init binary64 None None None None
        (Some (RevenueParameters_default binary64
          \<lparr>num_stalls := 3, peak_usage_percent := 0.375, standard_usage_percent := 0.5,
           off_peak_usage_percent := 0.125\<rparr>)))
     = \<lparr> weekday_sessions = 13797 / 4,
       weekend_sessions = 5490081459811123 / 4398046511104,
       total_sessions = 5165010847059149 / 1099511627776,
       peak_sessions = 1936879067647181 / 1099511627776,
       standard_sessions = 5165010847059149 / 2199023255552,
       off_peak_sessions = 5165010847059149 / 8796093022208 \<rparr>
   \<and> (1936879067647181 / 1099511627776 :: real)
       + 5165010847059149 / 2199023255552
       + 5165010847059149 / 8796093022208
       = 41320086776473193 / 8796093022208
   \<and> binary64 (binary64 (1936879067647181 / 1099511627776
                         + 5165010847059149 / 2199023255552)
               + 5165010847059149 / 8796093022208)
       = 2582505423529575 / 549755813888
   \<and> (41320086776473193 / 8796093022208 :: real) \<noteq> 5165010847059149 / 1099511627776
   \<and> (2582505423529575 / 549755813888 :: real) \<noteq> 5165010847059149 / 1099511627776"
proof -
  have "calculate_annual_sessions binary64
     (EnhancedSuperchargerCalculator_init binary64 None None None None
        (Some (RevenueParameters_default binary64
          \<lparr>num_stalls := 3, peak_usage_percent := 0.375, standard_usage_percent := 0.5,
           off_peak_usage_percent := 0.125\<rparr>)))
     = \<lparr> weekday_sessions = 13797 / 4,
       weekend_sessions = 5490081459811123 / 4398046511104,
       total_sessions = 5165010847059149 / 1099511627776,
       peak_sessions = 1936879067647181 / 1099511627776,
       standard_sessions = 5165010847059149 / 2199023255552,
       off_peak_sessions = 5165010847059149 / 8796093022208 \<rparr>"
    by (rule three_stalls_sessions_binary64) (simp add: default_calculator_parts)
  moreover have "binary64 (binary64 (1936879067647181 / 1099511627776
                         + 5165010847059149 / 2199023255552)
               + 5165010847059149 / 8796093022208)
       = 2582505423529575 / 549755813888"
    by (simp add: binary64_eval)
  ultimately show ?thesis
    by simp
qed

text \<open>
  C4, amended: the adjusted total is \<open>baseline \<times> 5/7 \<times> weekday_multiplier + baseline \<times>
  2/7 \<times> weekend_multiplier\<close> with \<open>baseline = stalls \<times> sessions_per_stall_per_day \<times>
  365 \<times> utilization_rate\<close>, each tier count is the adjusted total times its usage
  share, and in exact arithmetic the three tier counts sum to the adjusted total
  whenever the three shares sum to 1. In double precision every operation of these
  formulas is rounded, and the sum of the tier counts can differ from the adjusted total
  by rounding error.
\<close>

theorem tier_sessions_sum_to_adjusted_total:
  assumes "peak_usage_percent (revenue self) + standard_usage_percent (revenue self) +
           off_peak_usage_percent (revenue self) = 1"
  shows "peak_sessions (calculate_annual_sessions exact self) +
         standard_sessions (calculate_annual_sessions exact self) +
         off_peak_sessions (calculate_annual_sessions exact self) =
         total_sessions (calculate_annual_sessions exact self)
       \<and> total_sessions (calculate_annual_sessions exact self) =
         baseline_sessions exact (revenue self) * (5 / 7) * weekday_multiplier (revenue self) +
         baseline_sessions exact (revenue self) * (2 / 7) * weekend_multiplier (revenue self)
       \<and> baseline_sessions exact (revenue self) =
         of_int (num_stalls (revenue self)) * sessions_per_stall_per_day (revenue self) * 365 *
         utilization_rate (revenue self)
       \<and> total_sessions (calculate_annual_sessions rnd self) =
         rnd (rnd (rnd (baseline_sessions rnd (revenue self) * rnd (5 / 7))
                   * weekday_multiplier (revenue self)) +
              rnd (rnd (baseline_sessions rnd (revenue self) * rnd (2 / 7))
                   * weekend_multiplier (revenue self)))
       \<and> peak_sessions (calculate_annual_sessions rnd self) =
         rnd (total_sessions (calculate_annual_sessions rnd self)
              * peak_usage_percent (revenue self))
       \<and> standard_sessions (calculate_annual_sessions rnd self) =
         rnd (total_sessions (calculate_annual_sessions rnd self)
              * standard_usage_percent (revenue self))
       \<and> off_peak_sessions (calculate_annual_sessions rnd self) =
         rnd (total_sessions (calculate_annual_sessions rnd self)
              * off_peak_usage_percent (revenue self))"
proof -
  let ?s = "calculate_annual_sessions exact self"
  let ?r = "revenue self"
  have "peak_sessions ?s + standard_sessions ?s + off_peak_sessions ?s
        = total_sessions ?s *
          (peak_usage_percent ?r + standard_usage_percent ?r + off_peak_usage_percent ?r)"
    by (simp add: calculate_annual_sessions_def exact_def Let_def distrib_left)
  with assms have tiers: "peak_sessions ?s + standard_sessions ?s + off_peak_sessions ?s
        = total_sessions ?s"
    by simp
  have adjusted: "total_sessions ?s =
         baseline_sessions exact ?r * (5 / 7) * weekday_multiplier ?r +
         baseline_sessions exact ?r * (2 / 7) * weekend_multiplier ?r"
    by (simp add: calculate_annual_sessions_def exact_def Let_def)
  have base: "baseline_sessions exact ?r =
         of_int (num_stalls ?r) * sessions_per_stall_per_day ?r * 365 * utilization_rate ?r"
    by (simp add: baseline_sessions_def exact_def)
  have rounded: "total_sessions (calculate_annual_sessions rnd self) =
         rnd (rnd (rnd (baseline_sessions rnd ?r * rnd (5 / 7)) * weekday_multiplier ?r) +
              rnd (rnd (baseline_sessions rnd ?r * rnd (2 / 7)) * weekend_multiplier ?r))"
    "peak_sessions (calculate_annual_sessions rnd self) =
         rnd (total_sessions (calculate_annual_sessions rnd self) * peak_usage_percent ?r)"
    "standard_sessions (calculate_annual_sessions rnd self) =
         rnd (total_sessions (calculate_annual_sessions rnd self) * standard_usage_percent ?r)"
    "off_peak_sessions (calculate_annual_sessions rnd self) =
         rnd (total_sessions (calculate_annual_sessions rnd self) * off_peak_usage_percent ?r)"
    by (simp_all add: calculate_annual_sessions_def Let_def)
  from tiers adjusted base rounded show ?thesis by blast
qed

theorem tier_sessions_sum_to_adjusted_total_witness:
  "peak_usage_percent (RevenueParameters_default exact)
     + standard_usage_percent (RevenueParameters_default exact)
     + off_peak_usage_percent (RevenueParameters_default exact) = 1
   \<and> calculate_annual_sessions exact
       (EnhancedSuperchargerCalculator_init exact None None None None None)
     = \<lparr> weekday_sessions = 9198,
           weekend_sessions = 16644 / 5,
           total_sessions = 62634 / 5,
           peak_sessions = 31317 / 10,
           standard_sessions = 187902 / 25,
           off_peak_sessions = 93951 / 50 \<rparr>
   \<and> peak_sessions (calculate_annual_sessions exact
         (EnhancedSuperchargerCalculator_init exact None None None None None))
     + standard_sessions (calculate_annual_sessions exact
         (EnhancedSuperchargerCalculator_init exact None None None None None))
     + off_peak_sessions (calculate_annual_sessions exact
         (EnhancedSuperchargerCalculator_init exact None None None None None))
     = total_sessions (calculate_annual_sessions exact
         (EnhancedSuperchargerCalculator_init exact None None None None None))"
proof -
  let ?d = "EnhancedSuperchargerCalculator_init exact None None None None None"
  have rev: "revenue ?d = RevenueParameters_default exact"
    by (simp add: default_calculator_parts)
  have shares: "peak_usage_percent (RevenueParameters_default exact)
     + standard_usage_percent (RevenueParameters_default exact)
     + off_peak_usage_percent (RevenueParameters_default exact) = 1"
    by (simp add: RevenueParameters_default_def exact_def)
  have val: "calculate_annual_sessions exact ?d
     = \<lparr> weekday_sessions = 9198,
           weekend_sessions = 16644 / 5,
           total_sessions = 62634 / 5,
           peak_sessions = 31317 / 10,
           standard_sessions = 187902 / 25,
           off_peak_sessions = 93951 / 50 \<rparr>"
    by (simp add: calculate_annual_sessions_def baseline_sessions_def rev
        RevenueParameters_default_def exact_def Let_def)
  from shares have "peak_usage_percent (revenue ?d) + standard_usage_percent (revenue ?d) +
           off_peak_usage_percent (revenue ?d) = 1"
    by (simp only: rev)
  from tier_sessions_sum_to_adjusted_total [OF this, of exact] shares val
  show ?thesis by blast
qed

section \<open>Charging revenue\<close>

text \<open>
  C5, as stated: each tier's charging revenue equals that tier's kWh times that tier's
  price times the member adjustment. The record returned holds each tier revenue after
  the seasonal scaling \<open>0.25 \<times> summer + 0.25 \<times> winter + 0.50 \<times> spring_fall\<close>, which is
  41 / 40 for the default multipliers 1.15, 0.95 and 1.00. For the default configuration
  in exact arithmetic the peak tier has 156585 kWh at 0.42 with the member adjustment
  137 / 140, which gives 64356.435, and the record holds 65965.345875; in double precision
  the two values are 1105635134448599 / 17179869184 and
  566638006404907 / 8589934592.
\<close>

theorem tier_revenue_seasonal_counterexample:
  "calculate_charging_revenue exact
     (EnhancedSuperchargerCalculator_init exact None None None None None)
     = Inr \<lparr> peak_revenue = 527722767 / 8000,
               standard_revenue = 527722767 / 4000,
               off_peak_revenue = 527722767 / 20000,
               total_charging_revenue = 8971287039 / 40000,
               peak_kwh = 156585,
               standard_kwh = 375804,
               off_peak_kwh = 93951,
               total_kwh = 626340 \<rparr>
   \<and> member_adjustment exact (RevenueParameters_default exact) = Inr (137 / 140)
   \<and> peak_price (RevenueParameters_default exact) = 21 / 50
   \<and> (156585 * (21 / 50) * (137 / 140) :: real) = 12871287 / 200
   \<and> (12871287 / 200 :: real) \<noteq> 527722767 / 8000
   \<and> calculate_charging_revenue binary64
     (EnhancedSuperchargerCalculator_init binary64 None None None None None)
     = Inr \<lparr> peak_revenue = 566638006404907 / 8589934592,
             standard_revenue = 2266552025619627 / 17179869184,
             off_peak_revenue = 906620810247851 / 34359738368,
             total_charging_revenue = 7706276887106733 / 34359738368,
             peak_kwh = 156585,
             standard_kwh = 6456263558823935 / 17179869184,
             off_peak_kwh = 6456263558823935 / 68719476736,
             total_kwh = 626340 \<rparr>
   \<and> member_adjustment binary64 (RevenueParameters_default binary64)
     = Inr (8814187842139399 / 9007199254740992)
   \<and> peak_price (RevenueParameters_default binary64) = 7566047373982433 / 18014398509481984
   \<and> binary64 (binary64 (156585 * (7566047373982433 / 18014398509481984))
               * (8814187842139399 / 9007199254740992))
     = 1105635134448599 / 17179869184
   \<and> (1105635134448599 / 17179869184 :: real) \<noteq> 566638006404907 / 8589934592"
proof -
  let ?x = "EnhancedSuperchargerCalculator_init exact None None None None None"
  let ?d = "EnhancedSuperchargerCalculator_init binary64 None None None None None"
  have "calculate_charging_revenue exact ?x
     = Inr \<lparr> peak_revenue = 527722767 / 8000,
               standard_revenue = 527722767 / 4000,
               off_peak_revenue = 527722767 / 20000,
               total_charging_revenue = 8971287039 / 40000,
               peak_kwh = 156585,
               standard_kwh = 375804,
               off_peak_kwh = 93951,
               total_kwh = 626340 \<rparr>"
    by (simp add: calculate_charging_revenue_def calculate_annual_sessions_def
        baseline_sessions_def member_adjustment_def py_div_def seasonal_avg_def
        default_calculator_parts RevenueParameters_default_def exact_def Let_def)
  moreover have "member_adjustment exact (RevenueParameters_default exact) = Inr (137 / 140)"
    by (simp add: member_adjustment_def py_div_def RevenueParameters_default_def exact_def)
  moreover have "peak_price (RevenueParameters_default exact) = 21 / 50"
    by (simp add: RevenueParameters_default_def exact_def)
  moreover have "calculate_charging_revenue binary64 ?d
     = Inr \<lparr> peak_revenue = 566638006404907 / 8589934592,
             standard_revenue = 2266552025619627 / 17179869184,
             off_peak_revenue = 906620810247851 / 34359738368,
             total_charging_revenue = 7706276887106733 / 34359738368,
             peak_kwh = 156585,
             standard_kwh = 6456263558823935 / 17179869184,
             off_peak_kwh = 6456263558823935 / 68719476736,
             total_kwh = 626340 \<rparr>"
    by (rule default_charging_revenue_binary64) (simp add: default_calculator_parts)
  moreover have "peak_price (RevenueParameters_default binary64) = 7566047373982433 / 18014398509481984"
    unfolding default_revenue_binary64 by simp
  moreover have "binary64 (binary64 (156585 * (7566047373982433 / 18014398509481984))
               * (8814187842139399 / 9007199254740992))
     = 1105635134448599 / 17179869184"
    by (simp add: binary64_eval)
  moreover note default_member_adjustment_binary64
  ultimately show ?thesis
    by simp
qed

text \<open>
  C5, amended: with a standard price of 0 the division of the member discount by the
  standard price raises \<open>ZeroDivisionError\<close>. With any other standard price a record is
  returned; the member adjustment is computed once, as
  \<open>1 - percent_members \<times> (member_discount_per_kwh / standard_price)\<close>, always with the
  standard price as the divisor, and each of the three tier revenues of the record is
  that tier's delivered kWh times that tier's price times this one scalar times the
  seasonal weighting \<open>0.25 \<times> summer + 0.25 \<times> winter + 0.50 \<times> spring_fall\<close>. This holds
  whatever the rounding, each operation being rounded in the order written.
\<close>

theorem tier_revenue_uses_one_member_adjustment:
  "(standard_price (revenue self) = 0 \<longrightarrow>
      calculate_charging_revenue rnd self = Inl ZeroDivisionError)
   \<and> (standard_price (revenue self) \<noteq> 0 \<longrightarrow>
      (\<exists>c adj seasonal.
         calculate_charging_revenue rnd self = Inr c
       \<and> member_adjustment rnd (revenue self) = Inr adj
       \<and> adj = rnd (1 - rnd (percent_members (revenue self) *
                    rnd (member_discount_per_kwh (revenue self) / standard_price (revenue self))))
       \<and> seasonal_avg rnd (revenue self) = seasonal
       \<and> seasonal = rnd (rnd (rnd (summer_multiplier (revenue self) * rnd 0.25)
                               + rnd (winter_multiplier (revenue self) * rnd 0.25))
                          + rnd (spring_fall_multiplier (revenue self) * rnd 0.50))
       \<and> peak_revenue c =
           rnd (rnd (rnd (peak_kwh c * peak_price (revenue self)) * adj) * seasonal)
       \<and> standard_revenue c =
           rnd (rnd (rnd (standard_kwh c * standard_price (revenue self)) * adj) * seasonal)
       \<and> off_peak_revenue c =
           rnd (rnd (rnd (off_peak_kwh c * off_peak_price (revenue self)) * adj) * seasonal)
       \<and> peak_kwh c =
           rnd (peak_sessions (calculate_annual_sessions rnd self)
                * avg_kwh_per_session (revenue self))
       \<and> standard_kwh c =
           rnd (standard_sessions (calculate_annual_sessions rnd self)
                * avg_kwh_per_session (revenue self))
       \<and> off_peak_kwh c =
           rnd (off_peak_sessions (calculate_annual_sessions rnd self)
                * avg_kwh_per_session (revenue self))))"
proof (intro conjI impI)
  assume "standard_price (revenue self) = 0"
  then show "calculate_charging_revenue rnd self = Inl ZeroDivisionError"
    by (rule calculate_charging_revenue_raises)
next
  assume nz: "standard_price (revenue self) \<noteq> 0"
  then have adj: "member_adjustment rnd (revenue self) =
      Inr (rnd (1 - rnd (percent_members (revenue self) *
               rnd (member_discount_per_kwh (revenue self) / standard_price (revenue self)))))"
    by (simp add: member_adjustment_def py_div_def)
  from nz obtain c where c: "calculate_charging_revenue rnd self = Inr c"
    using calculate_charging_revenue_returns by blast
  from c adj have
    "peak_revenue c =
       rnd (rnd (rnd (peak_kwh c * peak_price (revenue self))
                 * rnd (1 - rnd (percent_members (revenue self) *
                     rnd (member_discount_per_kwh (revenue self) / standard_price (revenue self)))))
            * seasonal_avg rnd (revenue self))"
    "standard_revenue c =
       rnd (rnd (rnd (standard_kwh c * standard_price (revenue self))
                 * rnd (1 - rnd (percent_members (revenue self) *
                     rnd (member_discount_per_kwh (revenue self) / standard_price (revenue self)))))
            * seasonal_avg rnd (revenue self))"
    "off_peak_revenue c =
       rnd (rnd (rnd (off_peak_kwh c * off_peak_price (revenue self))
                 * rnd (1 - rnd (percent_members (revenue self) *
                     rnd (member_discount_per_kwh (revenue self) / standard_price (revenue self)))))
            * seasonal_avg rnd (revenue self))"
    "peak_kwh c =
       rnd (peak_sessions (calculate_annual_sessions rnd self)
            * avg_kwh_per_session (revenue self))"
    "standard_kwh c =
       rnd (standard_sessions (calculate_annual_sessions rnd self)
            * avg_kwh_per_session (revenue self))"
    "off_peak_kwh c =
       rnd (off_peak_sessions (calculate_annual_sessions rnd self)
            * avg_kwh_per_session (revenue self))"
    by (auto simp add: calculate_charging_revenue_def Let_def)
  with c adj show "\<exists>c adj seasonal.
         calculate_charging_revenue rnd self = Inr c
       \<and> member_adjustment rnd (revenue self) = Inr adj
       \<and> adj = rnd (1 - rnd (percent_members (revenue self) *
                    rnd (member_discount_per_kwh (revenue self) / standard_price (revenue self))))
       \<and> seasonal_avg rnd (revenue self) = seasonal
       \<and> seasonal = rnd (rnd (rnd (summer_multiplier (revenue self) * rnd 0.25)
                               + rnd (winter_multiplier (revenue self) * rnd 0.25))
                          + rnd (spring_fall_multiplier (revenue self) * rnd 0.50))
       \<and> peak_revenue c =
           rnd (rnd (rnd (peak_kwh c * peak_price (revenue self)) * adj) * seasonal)
       \<and> standard_revenue c =
           rnd (rnd (rnd (standard_kwh c * standard_price (revenue self)) * adj) * seasonal)
       \<and> off_peak_revenue c =
           rnd (rnd (rnd (off_peak_kwh c * off_peak_price (revenue self)) * adj) * seasonal)
       \<and> peak_kwh c =
           rnd (peak_sessions (calculate_annual_sessions rnd self)
                * avg_kwh_per_session (revenue self))
       \<and> standard_kwh c =
           rnd (standard_sessions (calculate_annual_sessions rnd self)
                * avg_kwh_per_session (revenue self))
       \<and> off_peak_kwh c =
           rnd (off_peak_sessions (calculate_annual_sessions rnd self)
                * avg_kwh_per_session (revenue self))"
    unfolding seasonal_avg_def by blast
qed

theorem tier_revenue_uses_one_member_adjustment_witness:
  "calculate_charging_revenue binary64
     (EnhancedSuperchargerCalculator_init binary64 None None None None None)
     = Inr \<lparr> peak_revenue = 566638006404907 / 8589934592,
             standard_revenue = 2266552025619627 / 17179869184,
             off_peak_revenue = 906620810247851 / 34359738368,
             total_charging_revenue = 7706276887106733 / 34359738368,
             peak_kwh = 156585,
             standard_kwh = 6456263558823935 / 17179869184,
             off_peak_kwh = 6456263558823935 / 68719476736,
             total_kwh = 626340 \<rparr>
   \<and> member_adjustment binary64 (RevenueParameters_default binary64)
     = Inr (8814187842139399 / 9007199254740992)
   \<and> seasonal_avg binary64 (RevenueParameters_default binary64)
     = 2308094809027379 / 2251799813685248
   \<and> peak_price (RevenueParameters_default binary64) = 7566047373982433 / 18014398509481984
   \<and> (566638006404907 / 8589934592 :: real)
     = binary64 (binary64 (binary64 (156585 * (7566047373982433 / 18014398509481984))
                           * (8814187842139399 / 9007199254740992))
                 * (2308094809027379 / 2251799813685248))
   \<and> calculate_charging_revenue binary64
     (EnhancedSuperchargerCalculator_init binary64 None None None None
        (Some (RevenueParameters_default binary64\<lparr>standard_price := 0\<rparr>)))
     = Inl ZeroDivisionError"
proof -
  let ?d = "EnhancedSuperchargerCalculator_init binary64 None None None None None"
  let ?z = "EnhancedSuperchargerCalculator_init binary64 None None None None
        (Some (RevenueParameters_default binary64\<lparr>standard_price := 0\<rparr>))"
  have rev: "revenue ?d = RevenueParameters_default binary64"
    by (simp add: default_calculator_parts)
  have val: "calculate_charging_revenue binary64 ?d
     = Inr \<lparr> peak_revenue = 566638006404907 / 8589934592,
             standard_revenue = 2266552025619627 / 17179869184,
             off_peak_revenue = 906620810247851 / 34359738368,
             total_charging_revenue = 7706276887106733 / 34359738368,
             peak_kwh = 156585,
             standard_kwh = 6456263558823935 / 17179869184,
             off_peak_kwh = 6456263558823935 / 68719476736,
             total_kwh = 626340 \<rparr>"
    by (rule default_charging_revenue_binary64) (rule rev)
  have pp: "peak_price (RevenueParameters_default binary64) = 7566047373982433 / 18014398509481984"
    unfolding default_revenue_binary64 by simp
  have nz: "standard_price (revenue ?d) \<noteq> 0"
    unfolding rev default_revenue_binary64 by simp
  have z: "standard_price (revenue ?z) = 0"
    by (simp add: default_calculator_parts)
  from tier_revenue_uses_one_member_adjustment [of ?z binary64] z
  have raises: "calculate_charging_revenue binary64 ?z = Inl ZeroDivisionError"
    by blast
  from tier_revenue_uses_one_member_adjustment [of ?d binary64] nz obtain c adj seasonal where
    c: "calculate_charging_revenue binary64 ?d = Inr c"
    and adj: "member_adjustment binary64 (revenue ?d) = Inr adj"
    and seasonal: "seasonal_avg binary64 (revenue ?d) = seasonal"
    and pk: "peak_revenue c =
           binary64 (binary64 (binary64 (peak_kwh c * peak_price (revenue ?d)) * adj) * seasonal)"
    by blast
  from c val have "c = \<lparr> peak_revenue = 566638006404907 / 8589934592,
             standard_revenue = 2266552025619627 / 17179869184,
             off_peak_revenue = 906620810247851 / 34359738368,
             total_charging_revenue = 7706276887106733 / 34359738368,
             peak_kwh = 156585,
             standard_kwh = 6456263558823935 / 17179869184,
             off_peak_kwh = 6456263558823935 / 68719476736,
             total_kwh = 626340 \<rparr>"
    by simp
  moreover from adj have "adj = 8814187842139399 / 9007199254740992"
    unfolding rev default_member_adjustment_binary64 by simp
  moreover from seasonal have "seasonal = 2308094809027379 / 2251799813685248"
    unfolding rev default_seasonal_avg_binary64 by simp
  ultimately have "(566638006404907 / 8589934592 :: real)
     = binary64 (binary64 (binary64 (156585 * (7566047373982433 / 18014398509481984))
                           * (8814187842139399 / 9007199254740992))
                 * (2308094809027379 / 2251799813685248))"
    using pk unfolding rev pp
    by (simp only: ChargingRevenue.select_convs)
  with val pp default_member_adjustment_binary64 default_seasonal_avg_binary64 raises
  show ?thesis by blast
qed

lemma nine_stalls_charging_revenue_binary64:
  assumes "revenue self = RevenueParameters_default binary64\<lparr>num_stalls := 9\<rparr>"
  shows "calculate_charging_revenue binary64 self =
     Inr \<lparr> peak_revenue = 2549871028822081 / 34359738368,
             standard_revenue = 2549871028822081 / 17179869184,
             off_peak_revenue = 2039896823057665 / 68719476736,
             total_charging_revenue = 8669561497995075 / 34359738368,
             peak_kwh = 1409265 / 8,
             standard_kwh = 845559 / 2,
             off_peak_kwh = 845559 / 8,
             total_kwh = 1409265 / 2 \<rparr>"
proof -
  have base: "baseline_sessions binary64 (revenue self) = 13797"
    unfolding baseline_sessions_def assms default_revenue_binary64
    by (simp add: binary64_eval)
  have sess: "calculate_annual_sessions binary64 self =
     \<lparr> weekday_sessions = 41391 / 4,
       weekend_sessions = 2058780547429171 / 549755813888,
       total_sessions = 7747516270588723 / 549755813888,
       peak_sessions = 7747516270588723 / 2199023255552,
       standard_sessions = 2324254881176617 / 274877906944,
       off_peak_sessions = 2324254881176617 / 1099511627776 \<rparr>"
    unfolding calculate_annual_sessions_def Let_def base
    unfolding assms default_revenue_binary64
    by (simp add: binary64_eval)
  have adj: "member_adjustment binary64 (revenue self) = Inr (8814187842139399 / 9007199254740992)"
    unfolding member_adjustment_def py_div_def assms default_revenue_binary64
    by (simp add: binary64_eval)
  have seas: "seasonal_avg binary64 (revenue self) = 2308094809027379 / 2251799813685248"
    unfolding seasonal_avg_def assms default_revenue_binary64
    by (simp add: binary64_eval)
  show ?thesis
    unfolding calculate_charging_revenue_def Let_def sess adj seas
    unfolding assms default_revenue_binary64
    by (simp add: binary64_eval)
qed

text \<open>
  C10, as stated: the total charging revenue equals the sum of the three tier revenues of
  the record exactly. The total is the seasonal multiple of the sum of the tier revenues
  before scaling, each returned tier revenue is the seasonal multiple of one of them, and
  every product is rounded. With 9 stalls and every other parameter at its default the
  total is 8669561497995075 / 2^35 (Python prints 252317.44797187494), while the three
  tier revenues returned add up to 8669561497995076 / 2^35 (252317.44797187496) as the
  program adds them, and to 17339122995990151 / 2^36 exactly.
\<close>

theorem charging_revenue_total_counterexample:
  "calculate_charging_revenue binary64
     (EnhancedSuperchargerCalculator_init binary64 None None None None
        (Some (RevenueParameters_default binary64\<lparr>num_stalls := 9\<rparr>)))
     = Inr \<lparr> peak_revenue = 2549871028822081 / 34359738368,
             standard_revenue = 2549871028822081 / 17179869184,
             off_peak_revenue = 2039896823057665 / 68719476736,
             total_charging_revenue = 8669561497995075 / 34359738368,
             peak_kwh = 1409265 / 8,
             standard_kwh = 845559 / 2,
             off_peak_kwh = 845559 / 8,
             total_kwh = 1409265 / 2 \<rparr>
   \<and> (2549871028822081 / 34359738368 :: real)
       + 2549871028822081 / 17179869184
       + 2039896823057665 / 68719476736
       = 17339122995990151 / 68719476736
   \<and> binary64 (binary64 (2549871028822081 / 34359738368
                         + 2549871028822081 / 17179869184)
               + 2039896823057665 / 68719476736)
       = 2167390374498769 / 8589934592
   \<and> (17339122995990151 / 68719476736 :: real) \<noteq> 8669561497995075 / 34359738368
   \<and> (2167390374498769 / 8589934592 :: real) \<noteq> 8669561497995075 / 34359738368"
proof -
  have "calculate_charging_revenue binary64
     (EnhancedSuperchargerCalculator_init binary64 None None None None
        (Some (RevenueParameters_default binary64\<lparr>num_stalls := 9\<rparr>)))
     = Inr \<lparr> peak_revenue = 2549871028822081 / 34359738368,
             standard_revenue = 2549871028822081 / 17179869184,
             off_peak_revenue = 2039896823057665 / 68719476736,
             total_charging_revenue = 8669561497995075 / 34359738368,
             peak_kwh = 1409265 / 8,
             standard_kwh = 845559 / 2,
             off_peak_kwh = 845559 / 8,
             total_kwh = 1409265 / 2 \<rparr>"
    by (rule nine_stalls_charging_revenue_binary64) (simp add: default_calculator_parts)
  moreover have "binary64 (binary64 (2549871028822081 / 34359738368
                         + 2549871028822081 / 17179869184)
               + 2039896823057665 / 68719476736)
       = 2167390374498769 / 8589934592"
    by (simp add: binary64_eval)
  ultimately show ?thesis
    by simp
qed

text \<open>
  C10, amended: in exact arithmetic the total charging revenue of the record is the sum of
  its three tier revenues and the total kWh is the sum of its three tier kWh. In double
  precision the total kWh is the sum of the three tier kWh as the program adds them; the
  total charging revenue is the rounded seasonal multiple of the sum of the tier
  revenues before scaling, and can differ from the sum of the returned tier revenues by
  rounding error.
\<close>

theorem charging_revenue_totals_are_sums:
  "(\<forall>c. calculate_charging_revenue exact self = Inr c \<longrightarrow>
        total_charging_revenue c = peak_revenue c + standard_revenue c + off_peak_revenue c
        \<and> total_kwh c = peak_kwh c + standard_kwh c + off_peak_kwh c)
   \<and> (\<forall>c adj. calculate_charging_revenue rnd self = Inr c \<longrightarrow>
        member_adjustment rnd (revenue self) = Inr adj \<longrightarrow>
        total_kwh c = rnd (rnd (peak_kwh c + standard_kwh c) + off_peak_kwh c)
        \<and> total_charging_revenue c =
            rnd (rnd (rnd (rnd (rnd (peak_kwh c * peak_price (revenue self)) * adj)
                           + rnd (rnd (standard_kwh c * standard_price (revenue self)) * adj))
                      + rnd (rnd (off_peak_kwh c * off_peak_price (revenue self)) * adj))
                 * seasonal_avg rnd (revenue self)))"
proof -
  have "total_charging_revenue c = peak_revenue c + standard_revenue c + off_peak_revenue c
        \<and> total_kwh c = peak_kwh c + standard_kwh c + off_peak_kwh c"
    if "calculate_charging_revenue exact self = Inr c" for c
    using that
    by (auto simp add: calculate_charging_revenue_def exact_def Let_def distrib_right
        split: sum.splits)
  moreover have "total_kwh c = rnd (rnd (peak_kwh c + standard_kwh c) + off_peak_kwh c)
        \<and> total_charging_revenue c =
            rnd (rnd (rnd (rnd (rnd (peak_kwh c * peak_price (revenue self)) * adj)
                           + rnd (rnd (standard_kwh c * standard_price (revenue self)) * adj))
                      + rnd (rnd (off_peak_kwh c * off_peak_price (revenue self)) * adj))
                 * seasonal_avg rnd (revenue self))"
    if "calculate_charging_revenue rnd self = Inr c"
      and "member_adjustment rnd (revenue self) = Inr adj" for c adj
    using that
    by (auto simp add: calculate_charging_revenue_def Let_def)
  ultimately show ?thesis by blast
qed

theorem charging_revenue_totals_are_sums_witness:
  "calculate_charging_revenue exact
     (EnhancedSuperchargerCalculator_init exact None None None None None)
     = Inr \<lparr> peak_revenue = 527722767 / 8000,
               standard_revenue = 527722767 / 4000,
               off_peak_revenue = 527722767 / 20000,
               total_charging_revenue = 8971287039 / 40000,
               peak_kwh = 156585,
               standard_kwh = 375804,
               off_peak_kwh = 93951,
               total_kwh = 626340 \<rparr>
   \<and> (8971287039 / 40000 :: real)
     = 527722767 / 8000 + 527722767 / 4000 + 527722767 / 20000
   \<and> (626340 :: real) = 156585 + 375804 + 93951
   \<and> member_adjustment binary64
       (revenue (EnhancedSuperchargerCalculator_init binary64 None None None None None))
     = Inr (8814187842139399 / 9007199254740992)
   \<and> (\<exists>c. calculate_charging_revenue binary64
            (EnhancedSuperchargerCalculator_init binary64 None None None None None) = Inr c
        \<and> total_kwh c = 626340
        \<and> total_kwh c = binary64 (binary64 (peak_kwh c + standard_kwh c) + off_peak_kwh c)
        \<and> total_charging_revenue c = 7706276887106733 / 34359738368
        \<and> total_charging_revenue c =
            binary64 (binary64 (binary64
              (binary64 (binary64 (peak_kwh c * peak_price (RevenueParameters_default binary64))
                         * (8814187842139399 / 9007199254740992))
               + binary64 (binary64
                   (standard_kwh c * standard_price (RevenueParameters_default binary64))
                         * (8814187842139399 / 9007199254740992)))
               + binary64 (binary64
                   (off_peak_kwh c * off_peak_price (RevenueParameters_default binary64))
                         * (8814187842139399 / 9007199254740992)))
              * seasonal_avg binary64 (RevenueParameters_default binary64)))"
proof -
  let ?x = "EnhancedSuperchargerCalculator_init exact None None None None None"
  let ?d = "EnhancedSuperchargerCalculator_init binary64 None None None None None"
  let ?c = "\<lparr> peak_revenue = 566638006404907 / 8589934592,
             standard_revenue = 2266552025619627 / 17179869184,
             off_peak_revenue = 906620810247851 / 34359738368,
             total_charging_revenue = 7706276887106733 / 34359738368,
             peak_kwh = 156585,
             standard_kwh = 6456263558823935 / 17179869184,
             off_peak_kwh = 6456263558823935 / 68719476736,
             total_kwh = 626340 \<rparr>"
  have rev: "revenue ?d = RevenueParameters_default binary64"
    by (simp add: default_calculator_parts)
  have valx: "calculate_charging_revenue exact ?x
     = Inr \<lparr> peak_revenue = 527722767 / 8000,
               standard_revenue = 527722767 / 4000,
               off_peak_revenue = 527722767 / 20000,
               total_charging_revenue = 8971287039 / 40000,
               peak_kwh = 156585,
               standard_kwh = 375804,
               off_peak_kwh = 93951,
               total_kwh = 626340 \<rparr>"
    by (simp add: calculate_charging_revenue_def calculate_annual_sessions_def
        baseline_sessions_def member_adjustment_def py_div_def seasonal_avg_def
        default_calculator_parts RevenueParameters_default_def exact_def Let_def)
  have vald: "calculate_charging_revenue binary64 ?d = Inr ?c"
    by (rule default_charging_revenue_binary64) (rule rev)
  have adj: "member_adjustment binary64 (revenue ?d) = Inr (8814187842139399 / 9007199254740992)"
    unfolding rev by (rule default_member_adjustment_binary64)
  from charging_revenue_totals_are_sums [where self = ?x and rnd = binary64] valx
  have x: "(8971287039 / 40000 :: real)
     = 527722767 / 8000 + 527722767 / 4000 + 527722767 / 20000
     \<and> (626340 :: real) = 156585 + 375804 + 93951"
    by auto
  from charging_revenue_totals_are_sums [where self = ?d and rnd = binary64] vald adj
  have d: "total_kwh ?c = binary64 (binary64 (peak_kwh ?c + standard_kwh ?c) + off_peak_kwh ?c)
        \<and> total_charging_revenue ?c =
            binary64 (binary64 (binary64
              (binary64 (binary64 (peak_kwh ?c * peak_price (revenue ?d))
                         * (8814187842139399 / 9007199254740992))
               + binary64 (binary64 (standard_kwh ?c * standard_price (revenue ?d))
                         * (8814187842139399 / 9007199254740992)))
               + binary64 (binary64 (off_peak_kwh ?c * off_peak_price (revenue ?d))
                         * (8814187842139399 / 9007199254740992)))
              * seasonal_avg binary64 (revenue ?d))"
    by blast
  have sel: "total_kwh ?c = 626340" "total_charging_revenue ?c = 7706276887106733 / 34359738368"
    by simp_all
  from valx x adj vald d sel show ?thesis
    unfolding rev by blast
qed

section \<open>Facts about the dataset\<close>

lemma dataset_totals:
  "sum_list (map (\<lambda>(c, s, la, lo, p, ch). p) US_METRO_AREAS) = 51336959"
  "sum_list (map (\<lambda>(c, s, la, lo, p, ch). ch) US_METRO_AREAS) = 800"
  "Max (set (map (\<lambda>(c, s, la, lo, p, ch). p) US_METRO_AREAS)) = 8336817"
  "length US_METRO_AREAS = 61"
  by (simp_all add: US_METRO_AREAS_def)

lemma dataset_divisors_nonzero:
  "\<forall>(c, s, la, lo, p, ch) \<in> set US_METRO_AREAS. p \<noteq> 0 \<and> ch \<noteq> 0"
  by (simp add: US_METRO_AREAS_def)

lemma init_rows:
  "rows (df (MarketAnalyzer_init rnd))
   = map (metrics_row rnd 8336817 (rnd (rnd (rnd 800 / rnd 51336959) * 100000))) US_METRO_AREAS"
  unfolding MarketAnalyzer_init_def create_dataframe_def calculate_metrics_def Let_def
    dataset_totals
  by simp

lemma dataset_average_binary64:
  "binary64 (binary64 (binary64 800 / binary64 51336959) * 100000) = 877262641788053 / 562949953421312"
  by (simp add: binary64_eval)

lemma people_per_charger_column:
  "map people_per_charger (rows (df (MarketAnalyzer_init rnd)))
   = map (\<lambda>(c, s, la, lo, p, ch). rnd (rnd (of_int p) / rnd (of_int ch))) US_METRO_AREAS"
  by (simp add: init_rows comp_def metrics_row_def split_def Let_def)

lemma people_per_charger_column_binary64:
  "map people_per_charger (rows (df (MarketAnalyzer_init binary64)))
   = [6365574465375437 / 34359738368,
      2576152440058171 / 34359738368,
      3370184754893385 / 34359738368,
      6334781267850035 / 68719476736,
      1534867647204921 / 17179869184,
      7347472708717773 / 68719476736,
      8215556609365333 / 68719476736,
      8664476482583087 / 137438953472,
      434793 / 8,
      2486761521713737 / 68719476736,
      961855 / 16,
      949611 / 8,
      183783 / 2,
      6915836512742059 / 68719476736,
      2804129484338269 / 34359738368,
      3431909570604471 / 137438953472,
      443821 / 4,
      6865130701507789 / 274877906944,
      4917029743309619 / 137438953472,
      1959373701161943 / 68719476736,
      4220918936204381 / 137438953472,
      4737843707720499 / 68719476736,
      213037 / 4,
      6751443162609371 / 68719476736,
      4982184969852245 / 137438953472,
      6013174116725555 / 137438953472,
      7251095933244757 / 68719476736,
      126609,
      4024954728008909 / 68719476736,
      288611 / 4,
      2155344392588857 / 34359738368,
      548073 / 8,
      6208884895820459 / 68719476736,
      5153401182318007 / 137438953472,
      7759039763287609 / 137438953472,
      99743 / 4,
      24973,
      474069 / 8,
      6680234077401907 / 68719476736,
      68423,
      7795592416513229 / 274877906944,
      4560373368400555 / 137438953472,
      43939 / 2,
      53232,
      5398693718349141 / 137438953472,
      4594286430169771 / 274877906944,
      7608812878744781 / 137438953472,
      302971 / 8,
      3036586055078473 / 68719476736,
      6671447146976597 / 68719476736,
      8289712942035763 / 274877906944,
      53968,
      214133 / 4,
      38406,
      150227 / 4,
      5517706689458995 / 137438953472,
      127999 / 2,
      4640649170474325 / 68719476736,
      3147200851659981 / 68719476736,
      62995,
      8819778335189675 / 137438953472]"
  unfolding people_per_charger_column
  by (simp add: US_METRO_AREAS_def binary64_eval)

text \<open>
  The mean of the people-per-charger column of the dataset in double precision, which
  Python prints as 63408.25941967413.
\<close>

lemma national_stats_mean_binary64:
  "avg_people_per_charger (fst (get_national_stats binary64 (MarketAnalyzer_init binary64)))
   = Some (4357382408060549 / 68719476736)"
proof -
  have "avg_people_per_charger (fst (get_national_stats binary64 (MarketAnalyzer_init binary64)))
     = mean binary64 (map people_per_charger (rows (df (MarketAnalyzer_init binary64))))"
    by (simp add: get_national_stats_def)
  also have "\<dots> = Some (4357382408060549 / 68719476736)"
    unfolding people_per_charger_column_binary64 mean_def
    by (simp add: pairwise_sum.simps binary64_eval)
  finally show ?thesis .
qed

lemma metrics_row_keys:
  "city (metrics_row rnd M A (c, s, la, lo, p, ch)) = c"
  "state (metrics_row rnd M A (c, s, la, lo, p, ch)) = s"
  "coverage_gap (metrics_row rnd M A (c, s, la, lo, p, ch))
   = rnd (rnd (rnd (rnd (of_int ch) / rnd (of_int p)) * 100000) - A)"
  by (simp_all add: metrics_row_def Let_def)

lemma find_map_list:
  "List.find P (map f xs) = map_option f (List.find (\<lambda>x. P (f x)) xs)"
  by (induction xs) auto

lemma init_states:
  "map state (rows (df (MarketAnalyzer_init rnd)))
   = map (\<lambda>(c, s, la, lo, p, ch). s) US_METRO_AREAS"
  by (simp add: init_rows comp_def metrics_row_def split_def Let_def)

lemma init_region: "region (df (MarketAnalyzer_init rnd)) = None"
  by (simp add: MarketAnalyzer_init_def)

section \<open>Queries and the stored table\<close>

lemma regional_analysis_state:
  "snd (get_regional_analysis rnd self) =
     self\<lparr> df := (df self)\<lparr> region := Some (map get_region (map state (rows (df self)))) \<rparr> \<rparr>"
  by (simp add: get_regional_analysis_def Let_def comp_def)

text \<open>
  C6, as the specification states it: no query changes the stored table. The regional
  aggregation does: after construction the table has no column \<open>region\<close>, and after
  \<open>get_regional_analysis\<close> it has one, holding the region of each of the 61 rows.
\<close>

theorem regional_analysis_mutates_counterexample:
  "region (df (MarketAnalyzer_init binary64)) = None
   \<and> region (df (snd (get_regional_analysis binary64 (MarketAnalyzer_init binary64)))) = Some
      [''Northeast'', ''West'', ''Midwest'', ''Southwest'', ''Southwest'',
       ''Northeast'', ''Southwest'', ''West'', ''Southwest'', ''West'',
       ''Southwest'', ''Southeast'', ''Southwest'', ''Midwest'',
       ''Southeast'', ''West'', ''Midwest'', ''West'', ''West'',
       ''Northeast'', ''Northeast'', ''Southeast'', ''Midwest'',
       ''Southwest'', ''West'', ''West'', ''Southeast'', ''Southeast'',
       ''Northeast'', ''Midwest'', ''Southwest'', ''Southwest'', ''West'',
       ''West'', ''Midwest'', ''Southeast'', ''Southeast'', ''Southeast'',
       ''Midwest'', ''West'', ''Midwest'', ''Southeast'', ''Southeast'',
       ''Midwest'', ''West'', ''West'', ''Northeast'', ''Northeast'',
       ''Midwest'', ''West'', ''Midwest'', ''Midwest'', ''Midwest'',
       ''Other'', ''Southeast'', ''Southeast'', ''Southeast'', ''Southwest'',
       ''West'', ''Midwest'', ''Midwest'']
   \<and> snd (get_regional_analysis binary64 (MarketAnalyzer_init binary64))
       \<noteq> MarketAnalyzer_init binary64"
proof -
  have col: "region (df (snd (get_regional_analysis binary64 (MarketAnalyzer_init binary64))))
    = Some
      [''Northeast'', ''West'', ''Midwest'', ''Southwest'', ''Southwest'',
       ''Northeast'', ''Southwest'', ''West'', ''Southwest'', ''West'',
       ''Southwest'', ''Southeast'', ''Southwest'', ''Midwest'',
       ''Southeast'', ''West'', ''Midwest'', ''West'', ''West'',
       ''Northeast'', ''Northeast'', ''Southeast'', ''Midwest'',
       ''Southwest'', ''West'', ''West'', ''Southeast'', ''Southeast'',
       ''Northeast'', ''Midwest'', ''Southwest'', ''Southwest'', ''West'',
       ''West'', ''Midwest'', ''Southeast'', ''Southeast'', ''Southeast'',
       ''Midwest'', ''West'', ''Midwest'', ''Southeast'', ''Southeast'',
       ''Midwest'', ''West'', ''West'', ''Northeast'', ''Northeast'',
       ''Midwest'', ''West'', ''Midwest'', ''Midwest'', ''Midwest'',
       ''Other'', ''Southeast'', ''Southeast'', ''Southeast'', ''Southwest'',
       ''West'', ''Midwest'', ''Midwest'']"
    unfolding regional_analysis_state init_states
    by (simp add: US_METRO_AREAS_def get_region_def regions_def)
  have "region (df (snd (get_regional_analysis binary64 (MarketAnalyzer_init binary64))))
        \<noteq> region (df (MarketAnalyzer_init binary64))"
    unfolding col init_region by simp
  then have "snd (get_regional_analysis binary64 (MarketAnalyzer_init binary64))
        \<noteq> MarketAnalyzer_init binary64"
    by auto
  with col init_region show ?thesis by blast
qed

text \<open>
  C6, amended: the queries for the full table, the top-N opportunities, the
  oversaturated markets, the underserved markets, the national statistics and the
  single-market classification leave the stored table identical. The regional
  aggregation leaves the rows, with every column computed at construction, as they
  were and stores the column \<open>region\<close> (each row's region, looked up from its state) on
  the stored table; a second call stores the same column again, so from the first call
  on it too leaves the table identical.
\<close>

theorem queries_leave_rows_unchanged:
  "snd (get_market_data self) = self
   \<and> snd (get_top_opportunities n self) = self
   \<and> snd (get_oversaturated_markets n self) = self
   \<and> snd (get_underserved_markets n self) = self
   \<and> snd (get_national_stats rnd self) = self
   \<and> snd (classify_market c s self) = self
   \<and> rows (df (snd (get_regional_analysis rnd self))) = rows (df self)
   \<and> region (df (snd (get_regional_analysis rnd self)))
       = Some (map (\<lambda>r. get_region (state r)) (rows (df self)))
   \<and> snd (get_regional_analysis rnd (snd (get_regional_analysis rnd self)))
       = snd (get_regional_analysis rnd self)"
proof -
  have pure: "snd (get_market_data self) = self"
    "snd (get_top_opportunities n self) = self"
    "snd (get_oversaturated_markets n self) = self"
    "snd (get_underserved_markets n self) = self"
    "snd (get_national_stats rnd self) = self"
    "snd (classify_market c s self) = self"
    by (simp_all add: get_market_data_def get_top_opportunities_def
        get_oversaturated_markets_def get_underserved_markets_def get_national_stats_def
        classify_market_def Let_def)
  have regional: "rows (df (snd (get_regional_analysis rnd self))) = rows (df self)"
    "region (df (snd (get_regional_analysis rnd self)))
       = Some (map (\<lambda>r. get_region (state r)) (rows (df self)))"
    "snd (get_regional_analysis rnd (snd (get_regional_analysis rnd self)))
       = snd (get_regional_analysis rnd self)"
    by (simp_all add: regional_analysis_state comp_def)
  from pure regional show ?thesis by blast
qed

section \<open>Ranking by opportunity score\<close>

lemma nlargest_sorted:
  "sorted_wrt (\<lambda>a b. col a \<ge> col b) (nlargest n col xs)"
proof -
  have "sorted (map (\<lambda>r. - col r) (sort_key (\<lambda>r. - col r) xs))"
    by (rule sorted_sort_key)
  then have "sorted_wrt (\<lambda>a b. col a \<ge> col b) (sort_key (\<lambda>r. - col r) xs)"
    by (simp add: sorted_map)
  then show ?thesis
    unfolding nlargest_def by (rule sorted_wrt_take)
qed

lemma filter_take_prefix: "prefix (filter P (take n xs)) (filter P xs)"
proof -
  have "filter P xs = filter P (take n xs) @ filter P (drop n xs)"
    by (metis append_take_drop_id filter_append)
  then show ?thesis by (metis prefixI)
qed

lemma nlargest_stable:
  "prefix (filter (\<lambda>r. col r = v) (nlargest n col xs)) (filter (\<lambda>r. col r = v) xs)"
proof -
  have "filter (\<lambda>r. - col r = - v) (sort_key (\<lambda>r. - col r) xs)
        = filter (\<lambda>r. - col r = - v) xs"
    by (rule sort_key_stable)
  then have "filter (\<lambda>r. col r = v) (sort_key (\<lambda>r. - col r) xs) = filter (\<lambda>r. col r = v) xs"
    by simp
  then show ?thesis
    unfolding nlargest_def by (metis filter_take_prefix)
qed

lemma nlargest_length: "length (nlargest n col xs) = min (nat n) (length xs)"
  by (simp add: nlargest_def)

lemma opportunity_columns_score:
  "opportunity_score (opportunity_columns r) = opportunity_score r"
  by (simp add: opportunity_columns_def)

text \<open>
  C7: for every \<open>n\<close> the rows returned by the top-N opportunity query are in
  non-increasing order of \<open>opportunity_score\<close>, and the returned rows of any one score
  are the first rows of that score in the dataset, in dataset order. There are
  \<open>n\<close> of them when \<open>0 \<le> n \<le>\<close> the number of rows.
\<close>

theorem top_opportunities_sorted_stable:
  "sorted_wrt (\<lambda>a b. opportunity_score a \<ge> opportunity_score b)
     (fst (get_top_opportunities n self))
   \<and> (\<forall>v. prefix (filter (\<lambda>r. opportunity_score r = v) (fst (get_top_opportunities n self)))
                 (filter (\<lambda>r. opportunity_score r = v)
                    (map opportunity_columns (rows (df self)))))
   \<and> length (fst (get_top_opportunities n self)) = min (nat n) (length (rows (df self)))"
proof -
  let ?xs = "rows (df self)"
  have s: "sorted_wrt (\<lambda>a b. opportunity_score a \<ge> opportunity_score b)
     (fst (get_top_opportunities n self))"
    using nlargest_sorted [of opportunity_score n ?xs]
    by (simp add: get_top_opportunities_def sorted_wrt_map opportunity_columns_score)
  have p: "prefix (filter (\<lambda>r. opportunity_score r = v) (fst (get_top_opportunities n self)))
                 (filter (\<lambda>r. opportunity_score r = v)
                    (map opportunity_columns ?xs))" for v
    using nlargest_stable [of opportunity_score v n ?xs]
    by (simp add: get_top_opportunities_def filter_map comp_def map_mono_prefix
        opportunity_columns_score)
  have l: "length (fst (get_top_opportunities n self)) = min (nat n) (length ?xs)"
    by (simp add: get_top_opportunities_def nlargest_length)
  from s p l show ?thesis by blast
qed

section \<open>Classification of a single market\<close>

lemma first_match_find:
  "(case filter P xs of [] \<Rightarrow> None | m # _ \<Rightarrow> Some m) = List.find P xs"
  by (induction xs) auto

lemma classify_market_result:
  "fst (classify_market c s self) =
     (case List.find (\<lambda>r. city r = c \<and> state r = s) (rows (df self)) of
        None \<Rightarrow> ''Unknown''
      | Some m \<Rightarrow> if coverage_gap m < - 0.5 then ''Underserved (High Opportunity)''
                  else if coverage_gap m > 0.5 then ''Oversaturated'' else ''Balanced'')"
  unfolding first_match_find [symmetric]
  by (simp add: classify_market_def Let_def split: list.splits)

text \<open>
  C8, as the specification states it: every city/state pair queried is put in one of the
  three bands. A pair that matches no record of the dataset is not: the dataset has
  Portland, OR, and the query for Portland, ME returns \<open>Unknown\<close>.
\<close>

theorem classify_market_unknown_counterexample:
  "fst (classify_market ''Portland'' ''ME'' (MarketAnalyzer_init binary64)) = ''Unknown''
   \<and> fst (classify_market ''Portland'' ''ME'' (MarketAnalyzer_init binary64))
       \<notin> {''Underserved (High Opportunity)'', ''Oversaturated'', ''Balanced''}"
proof -
  have "List.find (\<lambda>r. city r = ''Portland'' \<and> state r = ''ME'')
          (rows (df (MarketAnalyzer_init binary64))) = None"
    unfolding init_rows find_map_list
    by (simp add: US_METRO_AREAS_def metrics_row_keys)
  then have "fst (classify_market ''Portland'' ''ME'' (MarketAnalyzer_init binary64))
      = ''Unknown''"
    by (simp add: classify_market_result)
  then show ?thesis by simp
qed

text \<open>
  C8, amended: for a city/state pair that matches a record of the dataset, the first
  such record decides the result: \<open>Underserved (High Opportunity)\<close> when its coverage
  gap is below -0.5, \<open>Oversaturated\<close> when it is above 0.5, \<open>Balanced\<close> otherwise. For a
  pair that matches no record the result is \<open>Unknown\<close>.
\<close>

theorem classify_market_bands:
  "((\<forall>r \<in> set (rows (df self)). \<not> (city r = c \<and> state r = s)) \<longrightarrow>
      fst (classify_market c s self) = ''Unknown'')
   \<and> (\<forall>m. List.find (\<lambda>r. city r = c \<and> state r = s) (rows (df self)) = Some m \<longrightarrow>
        fst (classify_market c s self) =
          (if coverage_gap m < - 0.5 then ''Underserved (High Opportunity)''
           else if coverage_gap m > 0.5 then ''Oversaturated''
           else ''Balanced''))"
proof -
  have "List.find (\<lambda>r. city r = c \<and> state r = s) (rows (df self)) = None"
    if "\<forall>r \<in> set (rows (df self)). \<not> (city r = c \<and> state r = s)"
    using that by (simp add: find_None_iff)
  then show ?thesis
    by (simp add: classify_market_result)
qed

theorem classify_market_bands_witness:
  "List.find (\<lambda>r. city r = ''San Francisco'' \<and> state r = ''CA'')
     (rows (df (MarketAnalyzer_init binary64)))
     = Some (rows (df (MarketAnalyzer_init binary64)) ! 15)
   \<and> coverage_gap (rows (df (MarketAnalyzer_init binary64)) ! 15)
     = 2754407767460473 / 1125899906842624
   \<and> fst (classify_market ''San Francisco'' ''CA'' (MarketAnalyzer_init binary64))
     = ''Oversaturated''
   \<and> List.find (\<lambda>r. city r = ''New York'' \<and> state r = ''NY'')
     (rows (df (MarketAnalyzer_init binary64)))
     = Some (rows (df (MarketAnalyzer_init binary64)) ! 0)
   \<and> coverage_gap (rows (df (MarketAnalyzer_init binary64)) ! 0)
     = - (2293586780243657 / 2251799813685248)
   \<and> fst (classify_market ''New York'' ''NY'' (MarketAnalyzer_init binary64))
     = ''Underserved (High Opportunity)''
   \<and> List.find (\<lambda>r. city r = ''Los Angeles'' \<and> state r = ''CA'')
     (rows (df (MarketAnalyzer_init binary64)))
     = Some (rows (df (MarketAnalyzer_init binary64)) ! 1)
   \<and> coverage_gap (rows (df (MarketAnalyzer_init binary64)) ! 1)
     = - (252842944203573 / 1125899906842624)
   \<and> fst (classify_market ''Los Angeles'' ''CA'' (MarketAnalyzer_init binary64)) = ''Balanced''"
proof -
  let ?a = "MarketAnalyzer_init binary64"
  have sf: "List.find (\<lambda>r. city r = ''San Francisco'' \<and> state r = ''CA'') (rows (df ?a))
     = Some (rows (df ?a) ! 15)"
    unfolding init_rows find_map_list
    by (simp add: US_METRO_AREAS_def metrics_row_keys)
  have sf_gap: "coverage_gap (rows (df ?a) ! 15) = 2754407767460473 / 1125899906842624"
    unfolding init_rows dataset_average_binary64
    by (simp add: US_METRO_AREAS_def metrics_row_keys binary64_eval)
  have ny: "List.find (\<lambda>r. city r = ''New York'' \<and> state r = ''NY'') (rows (df ?a))
     = Some (rows (df ?a) ! 0)"
    unfolding init_rows find_map_list
    by (simp add: US_METRO_AREAS_def metrics_row_keys)
  have ny_gap: "coverage_gap (rows (df ?a) ! 0) = - (2293586780243657 / 2251799813685248)"
    unfolding init_rows dataset_average_binary64
    by (simp add: US_METRO_AREAS_def metrics_row_keys binary64_eval)
  have la: "List.find (\<lambda>r. city r = ''Los Angeles'' \<and> state r = ''CA'') (rows (df ?a))
     = Some (rows (df ?a) ! 1)"
    unfolding init_rows find_map_list
    by (simp add: US_METRO_AREAS_def metrics_row_keys)
  have la_gap: "coverage_gap (rows (df ?a) ! 1) = - (252842944203573 / 1125899906842624)"
    unfolding init_rows dataset_average_binary64
    by (simp add: US_METRO_AREAS_def metrics_row_keys binary64_eval)
  from classify_market_bands [of ?a "''San Francisco''" "''CA''"] sf
  have "fst (classify_market ''San Francisco'' ''CA'' ?a) =
          (if coverage_gap (rows (df ?a) ! 15) < - 0.5 then ''Underserved (High Opportunity)''
           else if coverage_gap (rows (df ?a) ! 15) > 0.5 then ''Oversaturated''
           else ''Balanced'')"
    by blast
  then have sf_res: "fst (classify_market ''San Francisco'' ''CA'' ?a) = ''Oversaturated''"
    unfolding sf_gap by simp
  from classify_market_bands [of ?a "''New York''" "''NY''"] ny
  have "fst (classify_market ''New York'' ''NY'' ?a) =
          (if coverage_gap (rows (df ?a) ! 0) < - 0.5 then ''Underserved (High Opportunity)''
           else if coverage_gap (rows (df ?a) ! 0) > 0.5 then ''Oversaturated''
           else ''Balanced'')"
    by blast
  then have ny_res: "fst (classify_market ''New York'' ''NY'' ?a)
      = ''Underserved (High Opportunity)''"
    unfolding ny_gap by simp
  from classify_market_bands [of ?a "''Los Angeles''" "''CA''"] la
  have "fst (classify_market ''Los Angeles'' ''CA'' ?a) =
          (if coverage_gap (rows (df ?a) ! 1) < - 0.5 then ''Underserved (High Opportunity)''
           else if coverage_gap (rows (df ?a) ! 1) > 0.5 then ''Oversaturated''
           else ''Balanced'')"
    by blast
  then have la_res: "fst (classify_market ''Los Angeles'' ''CA'' ?a) = ''Balanced''"
    unfolding la_gap by simp
  from sf sf_gap sf_res ny ny_gap ny_res la la_gap la_res show ?thesis by blast
qed

end
